theory Spec2Isabelle
  imports Main
begin

section \<open>Python values and dictionaries\<close>

text \<open>
  The arguments of the service operations of \<^verbatim>\<open>telesign/api.py\<close> are untyped Python
  values. The operations test them for truthiness (\<^verbatim>\<open>if verify_code:\<close>), compare them
  with \<^verbatim>\<open>None\<close>, format them into a path with \<^verbatim>\<open>%s\<close> and store them in a dictionary.
  The scalar values a caller passes are modelled by \<open>pyval\<close>.
\<close>

datatype pyval = PyNone | PyBool bool | PyInt int | PyStr string

fun truthy :: "pyval \<Rightarrow> bool" where
  "truthy PyNone = False"
| "truthy (PyBool b) = b"
| "truthy (PyInt i) = (i \<noteq> 0)"
| "truthy (PyStr s) = (s \<noteq> [])"

definition digit_char :: "nat \<Rightarrow> char" where
  "digit_char d = ''0123456789'' ! (d mod 10)"

fun str_nat :: "nat \<Rightarrow> string" where
  "str_nat n = (if n < 10 then [digit_char n] else str_nat (n div 10) @ [digit_char n])"

declare str_nat.simps [simp del]

text \<open>\<^verbatim>\<open>str(v)\<close>, which is what \<^verbatim>\<open>"...%s" % v\<close> inserts for a scalar \<open>v\<close>.\<close>

fun py_str :: "pyval \<Rightarrow> string" where
  "py_str PyNone = ''None''"
| "py_str (PyBool b) = (if b then ''True'' else ''False'')"
| "py_str (PyInt i) = (if i < 0 then CHR ''-'' # str_nat (nat (- i)) else str_nat (nat i))"
| "py_str (PyStr s) = s"

text \<open>
  A Python dictionary keeps its keys in insertion order: assigning to a key that is
  present replaces the value in place, assigning to a new key appends it.
  \<open>dict_update d e\<close> is \<^verbatim>\<open>d.update(e)\<close>: the items of \<open>e\<close> are assigned in order.
\<close>

fun setitem :: "('k \<times> 'v) list \<Rightarrow> 'k \<Rightarrow> 'v \<Rightarrow> ('k \<times> 'v) list" where
  "setitem [] k v = [(k, v)]"
| "setitem ((k', v') # d) k v = (if k' = k then (k', v) # d else (k', v') # setitem d k v)"

definition dict_update :: "('k \<times> 'v) list \<Rightarrow> ('k \<times> 'v) list \<Rightarrow> ('k \<times> 'v) list" where
  "dict_update d e = fold (\<lambda>(k, v) acc. setitem acc k v) e d"

definition getitem :: "('k \<times> 'v) list \<Rightarrow> 'k \<Rightarrow> 'v option" where
  "getitem d k = map_of d k"

type_synonym dict = "(string \<times> pyval) list"

section \<open>JSON values and \<^verbatim>\<open>json.loads\<close>\<close>

text \<open>
  \<^verbatim>\<open>_validate_response\<close> starts with \<^verbatim>\<open>json.loads(response.text)\<close>, a function of
  Python's standard library that returns the decoded value or raises. What it returns
  is built of dictionaries, lists, strings, numbers, booleans and \<^verbatim>\<open>None\<close>: the type
  \<open>json\<close>. A string is the list of its code points; a dictionary keeps each key
  once, in the order of the first appearance, with the value given last; a number with
  a fraction or an exponent is kept as its text (\<open>JFloat\<close>).

  What it raises is \<open>json_exn\<close>: the decoding error for a text that is not JSON,
  \<^verbatim>\<open>RecursionError\<close> when arrays and objects are nested deeper than the interpreter's
  recursion limit leaves room for, \<^verbatim>\<open>ValueError\<close> for an integer with more digits than
  the interpreter converts, and \<open>OtherError\<close> for anything else.
\<close>

datatype json =
    JNull
  | JBool bool
  | JInt int
  | JFloat string
  | JString "nat list"
  | JArray "json list"
  | JObject "(nat list \<times> json) list"

datatype json_exn = JSONDecodeError | RecursionError | ValueError | OtherError string

text \<open>
  In the model of the client \<^verbatim>\<open>json.loads\<close> is a parameter (\<open>json_loads\<close> of \<open>env\<close>,
  below), so that what is proved of \<^verbatim>\<open>_validate_response\<close> holds of whatever the
  library does. \<open>py_json_loads\<close> is the decoder the examples run: it follows the
  library's scanner, with the two limits of the interpreter as parameters.
  \<open>max_depth\<close> is the number of arrays and objects, one inside the other, that the
  recursion limit leaves room for when \<^verbatim>\<open>json.loads\<close> is called; \<open>max_str_digits\<close> is
  the greatest number of digits of an integer that is converted, 0 for no limit. The
  decoder reads the text from left to right and raises at the first thing that stops
  it.

  White space is blank, tab, line feed and carriage return.
\<close>

record limits =
  max_depth :: nat
  max_str_digits :: nat

definition is_ws :: "char \<Rightarrow> bool" where
  "is_ws c = (c = CHR '' '' \<or> c = CHR 0x09 \<or> c = CHR 0x0A \<or> c = CHR 0x0D)"

definition skip_ws :: "string \<Rightarrow> string" where
  "skip_ws s = dropWhile is_ws s"

definition is_digit :: "char \<Rightarrow> bool" where
  "is_digit c = (c \<in> set ''0123456789'')"

definition nat_of_digits :: "string \<Rightarrow> nat" where
  "nat_of_digits ds = foldl (\<lambda>a c. 10 * a + (of_char c - 48)) 0 ds"

text \<open>
  \<open>scanstring\<close> reads a string after its opening quote, up to the closing quote
  (\<open>0x22\<close>), and returns the code points of the string and the text that remains. A
  backslash (\<open>0x5C\<close>) must be followed by one of \<^verbatim>\<open>" \ / b f n r t\<close>, which stand for
  one character each, or by \<^verbatim>\<open>u\<close> and four hexadecimal digits. An escaped high
  surrogate followed by an escaped low surrogate is the one code point the pair
  encodes. A control character is refused.
\<close>

definition hex_digit :: "char \<Rightarrow> nat option" where
  "hex_digit c =
    (let n = (of_char c :: nat)
     in if 48 \<le> n \<and> n \<le> 57 then Some (n - 48)
        else if 97 \<le> n \<and> n \<le> 102 then Some (n - 87)
        else if 65 \<le> n \<and> n \<le> 70 then Some (n - 55)
        else None)"

definition hex4 :: "string \<Rightarrow> nat option" where
  "hex4 s =
    (case map hex_digit s of
       [Some a, Some b, Some c, Some d] \<Rightarrow> Some (((a * 16 + b) * 16 + c) * 16 + d)
     | _ \<Rightarrow> None)"

definition escape_char :: "char \<Rightarrow> nat option" where
  "escape_char e =
    (if e = CHR 0x22 then Some 34
     else if e = CHR 0x5C then Some 92
     else if e = CHR ''/'' then Some 47
     else if e = CHR ''b'' then Some 8
     else if e = CHR ''f'' then Some 12
     else if e = CHR ''n'' then Some 10
     else if e = CHR ''r'' then Some 13
     else if e = CHR ''t'' then Some 9
     else None)"

text \<open>
  \<open>unicode_escape\<close> reads what follows \<^verbatim>\<open>\u\<close>: it returns the code point and the
  number of characters it has read, 4 or, for a surrogate pair, 10.
\<close>

definition unicode_escape :: "string \<Rightarrow> (nat \<times> nat) option" where
  "unicode_escape es =
    (case hex4 (take 4 es) of
       None \<Rightarrow> None
     | Some h \<Rightarrow>
         if 0xD800 \<le> h \<and> h \<le> 0xDBFF \<and> take 2 (drop 4 es) = [CHR 0x5C, CHR ''u''] then
           (case hex4 (take 4 (drop 6 es)) of
              None \<Rightarrow> None
            | Some l \<Rightarrow>
                if 0xDC00 \<le> l \<and> l \<le> 0xDFFF
                then Some (0x10000 + (h - 0xD800) * 1024 + (l - 0xDC00), 10)
                else Some (h, 4))
         else Some (h, 4))"

fun scanstring :: "string \<Rightarrow> (nat list \<times> string) option" where
  "scanstring [] = None"
| "scanstring (c # cs) =
    (if c = CHR 0x22 then Some ([], cs)
     else if c = CHR 0x5C then
       (case cs of
          [] \<Rightarrow> None
        | e # es \<Rightarrow>
            if e = CHR ''u'' then
              (case unicode_escape es of
                 None \<Rightarrow> None
               | Some (n, used) \<Rightarrow> map_option (\<lambda>(k, r). (n # k, r)) (scanstring (drop used es)))
            else
              (case escape_char e of
                 None \<Rightarrow> None
               | Some n \<Rightarrow> map_option (\<lambda>(k, r). (n # k, r)) (scanstring es)))
     else if (of_char c :: nat) < 32 then None
     else map_option (\<lambda>(k, r). (of_char c # k, r)) (scanstring cs))"

text \<open>
  The text is read token by token. An integer is kept as its sign and its digits
  (\<open>TInt\<close>) until a value is wanted where it stands, which is when it is converted;
  \<open>TBad\<close> is text that begins no token.
\<close>

datatype token =
    TBeginObject | TEndObject | TBeginArray | TEndArray | TComma | TColon
  | TString "nat list"
  | TInt bool string
  | TValue json
  | TBad

text \<open>
  A number is an optional minus sign, an integer part (a single \<^verbatim>\<open>0\<close>, or a digit from
  1 to 9 and any digits), optionally a fraction (a point and at least one digit) and
  optionally an exponent (\<^verbatim>\<open>e\<close> or \<^verbatim>\<open>E\<close>, an optional sign, at least one digit). A
  fraction or an exponent that is not complete is left unread. Each function returns
  the text it has read and the text that remains.
\<close>

definition number_sign :: "string \<Rightarrow> string \<times> string" where
  "number_sign s =
    (case s of
       [] \<Rightarrow> ([], s)
     | c # cs \<Rightarrow> if c = CHR ''-'' then ([c], cs) else ([], s))"

definition exponent_sign :: "string \<Rightarrow> string \<times> string" where
  "exponent_sign s =
    (case s of
       [] \<Rightarrow> ([], s)
     | g # gs \<Rightarrow> if g = CHR ''-'' \<or> g = CHR ''+'' then ([g], gs) else ([], s))"

definition integer_part :: "string \<Rightarrow> (string \<times> string) option" where
  "integer_part s =
    (case s of
       [] \<Rightarrow> None
     | d # ds \<Rightarrow>
         if \<not> is_digit d then None
         else if d = CHR ''0'' then Some ([d], ds)
         else Some (d # takeWhile is_digit ds, dropWhile is_digit ds))"

definition fraction_part :: "string \<Rightarrow> string \<times> string" where
  "fraction_part s =
    (case s of
       [] \<Rightarrow> ([], s)
     | p # ps \<Rightarrow>
         if p = CHR ''.'' \<and> takeWhile is_digit ps \<noteq> []
         then (p # takeWhile is_digit ps, dropWhile is_digit ps)
         else ([], s))"

definition exponent_part :: "string \<Rightarrow> string \<times> string" where
  "exponent_part s =
    (case s of
       [] \<Rightarrow> ([], s)
     | e # es \<Rightarrow>
         if e = CHR ''e'' \<or> e = CHR ''E'' then
           (case exponent_sign es of
              (sg, es') \<Rightarrow>
                if takeWhile is_digit es' \<noteq> []
                then (e # sg @ takeWhile is_digit es', dropWhile is_digit es')
                else ([], s))
         else ([], s))"

definition match_number :: "string \<Rightarrow> (token \<times> string) option" where
  "match_number s =
    (case number_sign s of
       (sg, s1) \<Rightarrow>
         (case integer_part s1 of
            None \<Rightarrow> None
          | Some (ip, r1) \<Rightarrow>
              (case fraction_part r1 of
                 (fp, r2) \<Rightarrow>
                   (case exponent_part r2 of
                      (ep, r3) \<Rightarrow>
                        if fp = [] \<and> ep = [] then Some (TInt (sg \<noteq> []) ip, r3)
                        else Some (TValue (JFloat (sg @ ip @ fp @ ep)), r3)))))"

definition literals :: "(string \<times> json) list" where
  "literals =
    [(''null'', JNull), (''true'', JBool True), (''false'', JBool False),
     (''NaN'', JFloat ''NaN''), (''Infinity'', JFloat ''Infinity''),
     (''-Infinity'', JFloat ''-Infinity'')]"

fun match_literal :: "(string \<times> json) list \<Rightarrow> string \<Rightarrow> (json \<times> string) option" where
  "match_literal [] s = None"
| "match_literal ((p, v) # ls) s =
    (if take (length p) s = p then Some (v, drop (length p) s) else match_literal ls s)"

text \<open>
  \<open>next_token\<close> skips white space and reads one token; it is \<open>None\<close> at the end of
  the text.
\<close>

definition next_token :: "string \<Rightarrow> (token \<times> string) option" where
  "next_token s =
    (case skip_ws s of
       [] \<Rightarrow> None
     | c # cs \<Rightarrow>
         Some
           (if c = CHR 0x22 then
              (case scanstring cs of None \<Rightarrow> (TBad, cs) | Some (k, r) \<Rightarrow> (TString k, r))
            else if c = CHR ''{'' then (TBeginObject, cs)
            else if c = CHR ''}'' then (TEndObject, cs)
            else if c = CHR ''['' then (TBeginArray, cs)
            else if c = CHR '']'' then (TEndArray, cs)
            else if c = CHR '','' then (TComma, cs)
            else if c = CHR '':'' then (TColon, cs)
            else
              (case match_literal literals (c # cs) of
                 Some (v, r) \<Rightarrow> (TValue v, r)
               | None \<Rightarrow>
                   (case match_number (c # cs) of
                      Some (t, r) \<Rightarrow> (t, r)
                    | None \<Rightarrow> (TBad, cs)))))"

text \<open>
  The decoder's recursion is written out as a stack: one \<open>frame\<close> for each array or
  object that is open, with the members read so far (and, in an object, the key that
  waits for its value). The \<open>mode\<close> says what may come next. Opening an array or an
  object when \<open>max_depth\<close> of them are open raises \<^verbatim>\<open>RecursionError\<close>; an integer
  with more than \<open>max_str_digits\<close> digits raises \<^verbatim>\<open>ValueError\<close>; a token that may not
  come next raises the decoding error.
\<close>

datatype mode = Value | ValueOrEndArray | Key | KeyOrEndObject | Colon | CommaOrEnd | Done json

datatype frame = FArray "json list" | FObject "(nat list \<times> json) list" "nat list option"

fun deliver :: "json \<Rightarrow> frame list \<Rightarrow> json_exn + mode \<times> frame list" where
  "deliver v [] = Inr (Done v, [])"
| "deliver v (FArray vs # fs) = Inr (CommaOrEnd, FArray (vs @ [v]) # fs)"
| "deliver v (FObject ms (Some k) # fs) = Inr (CommaOrEnd, FObject (setitem ms k v) None # fs)"
| "deliver v (FObject ms None # fs) = Inl JSONDecodeError"

definition int_value :: "limits \<Rightarrow> bool \<Rightarrow> string \<Rightarrow> json_exn + json" where
  "int_value lim neg ds =
    (if 0 < max_str_digits lim \<and> max_str_digits lim < length ds then Inl ValueError
     else Inr (JInt ((if neg then - 1 else 1) * int (nat_of_digits ds))))"

definition start_value :: "limits \<Rightarrow> frame list \<Rightarrow> token \<Rightarrow> json_exn + mode \<times> frame list" where
  "start_value lim fs t =
    (case t of
       TBeginArray \<Rightarrow>
         if length fs < max_depth lim then Inr (ValueOrEndArray, FArray [] # fs)
         else Inl RecursionError
     | TBeginObject \<Rightarrow>
         if length fs < max_depth lim then Inr (KeyOrEndObject, FObject [] None # fs)
         else Inl RecursionError
     | TString k \<Rightarrow> deliver (JString k) fs
     | TInt neg ds \<Rightarrow> (case int_value lim neg ds of Inl x \<Rightarrow> Inl x | Inr v \<Rightarrow> deliver v fs)
     | TValue v \<Rightarrow> deliver v fs
     | _ \<Rightarrow> Inl JSONDecodeError)"

definition end_array :: "frame list \<Rightarrow> json_exn + mode \<times> frame list" where
  "end_array fs =
    (case fs of FArray vs # fs' \<Rightarrow> deliver (JArray vs) fs' | _ \<Rightarrow> Inl JSONDecodeError)"

definition end_object :: "frame list \<Rightarrow> json_exn + mode \<times> frame list" where
  "end_object fs =
    (case fs of
       FObject ms None # fs' \<Rightarrow> deliver (JObject ms) fs'
     | _ \<Rightarrow> Inl JSONDecodeError)"

definition begin_key :: "frame list \<Rightarrow> nat list \<Rightarrow> json_exn + mode \<times> frame list" where
  "begin_key fs k =
    (case fs of
       FObject ms None # fs' \<Rightarrow> Inr (Colon, FObject ms (Some k) # fs')
     | _ \<Rightarrow> Inl JSONDecodeError)"

definition after_comma :: "frame list \<Rightarrow> json_exn + mode \<times> frame list" where
  "after_comma fs =
    (case fs of
       FArray vs # fs' \<Rightarrow> Inr (Value, fs)
     | FObject ms None # fs' \<Rightarrow> Inr (Key, fs)
     | _ \<Rightarrow> Inl JSONDecodeError)"

definition step :: "limits \<Rightarrow> mode \<times> frame list \<Rightarrow> token \<Rightarrow> json_exn + mode \<times> frame list" where
  "step lim st t =
    (case st of
       (m, fs) \<Rightarrow>
         (case m of
            Value \<Rightarrow> start_value lim fs t
          | ValueOrEndArray \<Rightarrow> if t = TEndArray then end_array fs else start_value lim fs t
          | KeyOrEndObject \<Rightarrow>
              (case t of
                 TEndObject \<Rightarrow> end_object fs
               | TString k \<Rightarrow> begin_key fs k
               | _ \<Rightarrow> Inl JSONDecodeError)
          | Key \<Rightarrow> (case t of TString k \<Rightarrow> begin_key fs k | _ \<Rightarrow> Inl JSONDecodeError)
          | Colon \<Rightarrow> if t = TColon then Inr (Value, fs) else Inl JSONDecodeError
          | CommaOrEnd \<Rightarrow>
              (case t of
                 TComma \<Rightarrow> after_comma fs
               | TEndArray \<Rightarrow> end_array fs
               | TEndObject \<Rightarrow> end_object fs
               | _ \<Rightarrow> Inl JSONDecodeError)
          | Done v \<Rightarrow> Inl JSONDecodeError))"

fun finish :: "mode \<times> frame list \<Rightarrow> json_exn + json" where
  "finish (Done v, fs) = Inr v"
| "finish st = Inl JSONDecodeError"

text \<open>
  \<open>run\<close> takes the tokens one by one until the text ends. Its first argument after
  the limits bounds the number of tokens; every token is at least one character, so
  the length of the text is bound enough, and a greater bound gives the same result
  (lemma \<open>py_json_loads_run\<close> below).
\<close>

fun run :: "limits \<Rightarrow> nat \<Rightarrow> mode \<times> frame list \<Rightarrow> string \<Rightarrow> json_exn + json" where
  "run lim 0 st s =
    (case next_token s of None \<Rightarrow> finish st | Some (t, r) \<Rightarrow> Inl JSONDecodeError)"
| "run lim (Suc n) st s =
    (case next_token s of
       None \<Rightarrow> finish st
     | Some (t, r) \<Rightarrow>
         (case step lim st t of Inl x \<Rightarrow> Inl x | Inr st' \<Rightarrow> run lim n st' r))"

definition py_json_loads :: "limits \<Rightarrow> string \<Rightarrow> json_exn + json" where
  "py_json_loads lim s = run lim (length s) (Value, []) s"

text \<open>
  The limits of an interpreter as it is installed: a recursion limit of 1000, which
  bounds the room \<^verbatim>\<open>json.loads\<close> finds from above (the calls that are under way take
  their part of it), and 4300 digits.
\<close>

definition default_limits :: limits where
  "default_limits = \<lparr>max_depth = 1000, max_str_digits = 4300\<rparr>"

section \<open>Responses and errors\<close>

text \<open>
  What the code reads of the object the \<^verbatim>\<open>requests\<close> library returns: the attributes
  \<^verbatim>\<open>status_code\<close>, \<^verbatim>\<open>text\<close> and \<^verbatim>\<open>headers\<close>.
\<close>

record http_response =
  status_code :: int
  resp_text :: string
  resp_headers :: "(string \<times> string) list"

text \<open>
  The exceptions an operation can leave with. \<open>AuthorizationError\<close> and
  \<open>TelesignError\<close> are the classes of \<^verbatim>\<open>telesign.exceptions\<close>, raised with the decoded
  body and the response. \<open>JsonRaised x\<close> is the exception \<open>x\<close> of \<^verbatim>\<open>json.loads\<close>, which
  nothing in the module catches; \<open>IndexError\<close> is what \<^verbatim>\<open>rng.choice\<close> raises on an
  empty sequence, and \<open>Raised\<close> stands for any exception of \<^verbatim>\<open>generate_auth_headers\<close>
  or of the HTTP transport.
\<close>

datatype error =
    JsonRaised json_exn
  | AuthorizationError json http_response
  | TelesignError json http_response
  | IndexError
  | Raised string

definition codes_ok :: int where
  "codes_ok = 200"

definition codes_unauthorized :: int where
  "codes_unauthorized = 401"


section \<open>The code generator\<close>

text \<open>
  The module global \<^verbatim>\<open>rng = SystemRandom()\<close>. The operating system's random source is
  an arbitrary infinite sequence of draws, \<open>source\<close>; \<open>consumed\<close> counts the draws
  taken so far. \<^verbatim>\<open>rng.choice(seq)\<close> takes one draw and returns the element of \<open>seq\<close>
  at a position below \<open>length seq\<close> that the draw selects; on an empty sequence it
  raises \<^verbatim>\<open>IndexError\<close>.
\<close>

record SystemRandom =
  source :: "nat \<Rightarrow> nat"
  consumed :: nat

definition choice :: "'a list \<Rightarrow> SystemRandom \<Rightarrow> (error + 'a) \<times> SystemRandom" where
  "choice seq g =
    (if seq = [] then (Inl IndexError, g)
     else (Inr (seq ! (source g (consumed g) mod length seq)),
           g\<lparr>consumed := Suc (consumed g)\<rparr>))"

text \<open>
  \<^verbatim>\<open>"".join(rng.choice('0123456789') for _ in range(n))\<close>: one call of \<open>choice\<close> for
  each element of \<^verbatim>\<open>range(n)\<close>, which is empty when \<open>n \<le> 0\<close>.
\<close>

fun join_choices :: "nat \<Rightarrow> SystemRandom \<Rightarrow> (error + string) \<times> SystemRandom" where
  "join_choices 0 g = (Inr [], g)"
| "join_choices (Suc k) g =
    (case choice ''0123456789'' g of
       (Inl exn, g') \<Rightarrow> (Inl exn, g')
     | (Inr c, g') \<Rightarrow>
         (case join_choices k g' of
            (Inl exn, g'') \<Rightarrow> (Inl exn, g'')
          | (Inr cs, g'') \<Rightarrow> (Inr (c # cs), g'')))"


section \<open>The service client\<close>

text \<open>
  \<^verbatim>\<open>class Response\<close> and \<^verbatim>\<open>class ServiceBase\<close>. A parameter with a default value is
  an \<open>option\<close>: \<open>None\<close> when the caller omits it.
\<close>

definition default_arg :: "'a \<Rightarrow> 'a option \<Rightarrow> 'a" where
  "default_arg d a = (case a of None \<Rightarrow> d | Some v \<Rightarrow> v)"

record Response =
  data :: json
  headers :: "(string \<times> string) list"
  status :: int
  raw_data :: string
  verify_code :: pyval

definition Response_init :: "json \<Rightarrow> http_response \<Rightarrow> pyval option \<Rightarrow> Response" where
  "Response_init data' http_resp verify_code_arg =
    \<lparr>data = data',
     headers = resp_headers http_resp,
     status = status_code http_resp,
     raw_data = resp_text http_resp,
     verify_code = default_arg PyNone verify_code_arg\<rparr>"

record ServiceBase =
  customer_id :: string
  secret_key :: string
  api_host :: string
  proxy :: "(string \<times> string) list option"
  url :: string

definition ServiceBase_init ::
  "string \<Rightarrow> string \<Rightarrow> string \<Rightarrow> bool option \<Rightarrow> string option \<Rightarrow> ServiceBase" where
  "ServiceBase_init api_host' customer_id' secret_key' ssl_arg proxy_host =
    (let ssl = default_arg True ssl_arg;
         http_root = (if ssl then ''https'' else ''http'')
     in \<lparr>customer_id = customer_id',
         secret_key = secret_key',
         api_host = api_host',
         proxy = (case proxy_host of
                    None \<Rightarrow> None
                  | Some h \<Rightarrow> if h = [] then None
                              else Some [(http_root, http_root @ ''://'' @ h)]),
         url = http_root @ ''://'' @ api_host'\<rparr>)"

definition PhoneId_init ::
  "string \<Rightarrow> string \<Rightarrow> bool option \<Rightarrow> string option \<Rightarrow> string option \<Rightarrow> ServiceBase" where
  "PhoneId_init customer_id' secret_key' ssl_arg api_host_arg proxy_host =
    ServiceBase_init (default_arg ''rest.telesign.com'' api_host_arg) customer_id' secret_key'
      (Some (default_arg True ssl_arg)) proxy_host"

definition Verify_init ::
  "string \<Rightarrow> string \<Rightarrow> bool option \<Rightarrow> string option \<Rightarrow> string option \<Rightarrow> ServiceBase" where
  "Verify_init customer_id' secret_key' ssl_arg api_host_arg proxy_host =
    ServiceBase_init (default_arg ''rest.telesign.com'' api_host_arg) customer_id' secret_key'
      (Some (default_arg True ssl_arg)) proxy_host"

subsection \<open>The collaborators and the record of their calls\<close>

text \<open>
  \<^verbatim>\<open>telesign.auth.generate_auth_headers\<close> is not among the sources at hand, and
  \<^verbatim>\<open>requests.get\<close>, \<^verbatim>\<open>requests.post\<close> and \<^verbatim>\<open>json.loads\<close> are a library's. The four
  are parameters (\<open>env\<close>), each free to return a value or to raise. Every call of the
  signer or of the transport is appended, with its arguments, to \<open>calls\<close>, so that
  what an operation hands to them can be read off afterwards. The fifth argument of
  \<open>GenerateAuthHeaders\<close> is the keyword argument \<^verbatim>\<open>fields\<close>, \<open>None\<close> when it is not
  passed. The collaborators see the values they are given and nothing of the client
  object or of the module's \<^verbatim>\<open>rng\<close>.
\<close>

type_synonym hdrs = "(string \<times> string) list"

record env =
  generate_auth_headers :: "string \<Rightarrow> string \<Rightarrow> string \<Rightarrow> string \<Rightarrow> dict option \<Rightarrow> error + hdrs"
  requests_get :: "string \<Rightarrow> dict \<Rightarrow> hdrs \<Rightarrow> (string \<times> string) list option \<Rightarrow> error + http_response"
  requests_post :: "string \<Rightarrow> dict \<Rightarrow> hdrs \<Rightarrow> (string \<times> string) list option \<Rightarrow> error + http_response"
  json_loads :: "string \<Rightarrow> json_exn + json"

datatype outcall =
    GenerateAuthHeaders string string string string "dict option"
  | RequestsGet string dict hdrs "(string \<times> string) list option"
  | RequestsPost string dict hdrs "(string \<times> string) list option"

record world =
  client :: ServiceBase
  rng :: SystemRandom
  calls :: "outcall list"

definition call_generate_auth_headers ::
  "env \<Rightarrow> string \<Rightarrow> string \<Rightarrow> string \<Rightarrow> string \<Rightarrow> dict option \<Rightarrow> world \<Rightarrow> (error + hdrs) \<times> world" where
  "call_generate_auth_headers e cid key resource method flds w =
    (generate_auth_headers e cid key resource method flds,
     w\<lparr>calls := calls w @ [GenerateAuthHeaders cid key resource method flds]\<rparr>)"

definition call_requests_get ::
  "env \<Rightarrow> string \<Rightarrow> dict \<Rightarrow> hdrs \<Rightarrow> (string \<times> string) list option \<Rightarrow> world
    \<Rightarrow> (error + http_response) \<times> world" where
  "call_requests_get e u params hs proxies w =
    (requests_get e u params hs proxies, w\<lparr>calls := calls w @ [RequestsGet u params hs proxies]\<rparr>)"

definition call_requests_post ::
  "env \<Rightarrow> string \<Rightarrow> dict \<Rightarrow> hdrs \<Rightarrow> (string \<times> string) list option \<Rightarrow> world
    \<Rightarrow> (error + http_response) \<times> world" where
  "call_requests_post e u body hs proxies w =
    (requests_post e u body hs proxies, w\<lparr>calls := calls w @ [RequestsPost u body hs proxies]\<rparr>)"


text \<open>
  \<^verbatim>\<open>ServiceBase._validate_response\<close>. The body is decoded first, and what
  \<^verbatim>\<open>json.loads\<close> raises leaves the method; the status code is looked at afterwards.
\<close>

definition validate_response :: "env \<Rightarrow> ServiceBase \<Rightarrow> http_response \<Rightarrow> error + json" where
  "validate_response e self response =
    (case json_loads e (resp_text response) of
       Inl exn \<Rightarrow> Inl (JsonRaised exn)
     | Inr resp_obj \<Rightarrow>
         if status_code response \<noteq> codes_ok then
           (if status_code response = codes_unauthorized
            then Inl (AuthorizationError resp_obj response)
            else Inl (TelesignError resp_obj response))
         else Inr resp_obj)"

text \<open>
  The state an operation runs in: the client object it is called on, the module's
  \<^verbatim>\<open>rng\<close> and the calls made so far.
\<close>

definition random_with_n_digits :: "int \<Rightarrow> world \<Rightarrow> (error + string) \<times> world" where
  "random_with_n_digits n w =
    (case join_choices (nat n) (rng w) of (res, g) \<Rightarrow> (res, w\<lparr>rng := g\<rparr>))"

subsection \<open>\<^verbatim>\<open>class PhoneId\<close>\<close>

definition standard ::
  "env \<Rightarrow> pyval \<Rightarrow> pyval option \<Rightarrow> dict option \<Rightarrow> world \<Rightarrow> (error + Response) \<times> world" where
  "standard e phone_number use_case_code_arg extra w =
    (let use_case_code = default_arg PyNone use_case_code_arg;
         resource = ''/v1/phoneid/standard/'' @ py_str phone_number;
         method = ''GET'';
         fields = [];
         fields = (if truthy use_case_code then setitem fields ''ucid'' use_case_code else fields);
         fields = (case extra of None \<Rightarrow> fields | Some x \<Rightarrow> dict_update fields x)
     in case call_generate_auth_headers e (customer_id (client w)) (secret_key (client w))
               resource method None w of
          (Inl exn, w1) \<Rightarrow> (Inl exn, w1)
        | (Inr hs, w1) \<Rightarrow>
            (case call_requests_get e (url (client w1) @ resource) fields hs (proxy (client w1)) w1 of
               (Inl exn, w2) \<Rightarrow> (Inl exn, w2)
             | (Inr req, w2) \<Rightarrow>
                 (case validate_response e (client w2) req of
                    Inl exn \<Rightarrow> (Inl exn, w2)
                  | Inr resp_obj \<Rightarrow> (Inr (Response_init resp_obj req None), w2))))"

definition score ::
  "env \<Rightarrow> pyval \<Rightarrow> pyval \<Rightarrow> dict option \<Rightarrow> world \<Rightarrow> (error + Response) \<times> world" where
  "score e phone_number use_case_code extra w =
    (let resource = ''/v1/phoneid/score/'' @ py_str phone_number;
         method = ''GET'';
         fields = [(''ucid'', use_case_code)];
         fields = (case extra of None \<Rightarrow> fields | Some x \<Rightarrow> dict_update fields x)
     in case call_generate_auth_headers e (customer_id (client w)) (secret_key (client w))
               resource method None w of
          (Inl exn, w1) \<Rightarrow> (Inl exn, w1)
        | (Inr hs, w1) \<Rightarrow>
            (case call_requests_get e (url (client w1) @ resource) fields hs (proxy (client w1)) w1 of
               (Inl exn, w2) \<Rightarrow> (Inl exn, w2)
             | (Inr req, w2) \<Rightarrow>
                 (case validate_response e (client w2) req of
                    Inl exn \<Rightarrow> (Inl exn, w2)
                  | Inr resp_obj \<Rightarrow> (Inr (Response_init resp_obj req None), w2))))"

definition contact ::
  "env \<Rightarrow> pyval \<Rightarrow> pyval \<Rightarrow> dict option \<Rightarrow> world \<Rightarrow> (error + Response) \<times> world" where
  "contact e phone_number use_case_code extra w =
    (let resource = ''/v1/phoneid/contact/'' @ py_str phone_number;
         method = ''GET'';
         fields = [(''ucid'', use_case_code)];
         fields = (case extra of None \<Rightarrow> fields | Some x \<Rightarrow> dict_update fields x)
     in case call_generate_auth_headers e (customer_id (client w)) (secret_key (client w))
               resource method None w of
          (Inl exn, w1) \<Rightarrow> (Inl exn, w1)
        | (Inr hs, w1) \<Rightarrow>
            (case call_requests_get e (url (client w1) @ resource) fields hs (proxy (client w1)) w1 of
               (Inl exn, w2) \<Rightarrow> (Inl exn, w2)
             | (Inr req, w2) \<Rightarrow>
                 (case validate_response e (client w2) req of
                    Inl exn \<Rightarrow> (Inl exn, w2)
                  | Inr resp_obj \<Rightarrow> (Inr (Response_init resp_obj req None), w2))))"

definition live ::
  "env \<Rightarrow> pyval \<Rightarrow> pyval \<Rightarrow> dict option \<Rightarrow> world \<Rightarrow> (error + Response) \<times> world" where
  "live e phone_number use_case_code extra w =
    (let resource = ''/v1/phoneid/live/'' @ py_str phone_number;
         method = ''GET'';
         fields = [(''ucid'', use_case_code)];
         fields = (case extra of None \<Rightarrow> fields | Some x \<Rightarrow> dict_update fields x)
     in case call_generate_auth_headers e (customer_id (client w)) (secret_key (client w))
               resource method None w of
          (Inl exn, w1) \<Rightarrow> (Inl exn, w1)
        | (Inr hs, w1) \<Rightarrow>
            (case call_requests_get e (url (client w1) @ resource) fields hs (proxy (client w1)) w1 of
               (Inl exn, w2) \<Rightarrow> (Inl exn, w2)
             | (Inr req, w2) \<Rightarrow>
                 (case validate_response e (client w2) req of
                    Inl exn \<Rightarrow> (Inl exn, w2)
                  | Inr resp_obj \<Rightarrow> (Inr (Response_init resp_obj req None), w2))))"

subsection \<open>\<^verbatim>\<open>class Verify\<close>\<close>

definition sms ::
  "env \<Rightarrow> pyval \<Rightarrow> pyval option \<Rightarrow> pyval option \<Rightarrow> pyval option \<Rightarrow> pyval option \<Rightarrow> pyval option
    \<Rightarrow> dict option \<Rightarrow> world \<Rightarrow> (error + Response) \<times> world" where
  "sms e phone_number verify_code_arg language_arg template_arg use_case_code_arg
       originating_ip_arg extra w =
    (let verify_code = default_arg PyNone verify_code_arg;
         language = default_arg (PyStr ''en'') language_arg;
         template = default_arg (PyStr []) template_arg;
         use_case_code = default_arg PyNone use_case_code_arg;
         originating_ip = default_arg PyNone originating_ip_arg;
         resource = ''/v1/verify/sms'';
         method = ''POST'';
         fields = [(''phone_number'', phone_number), (''language'', language),
                   (''template'', template)];
         fields = (if truthy verify_code then setitem fields ''verify_code'' verify_code
                   else fields);
         fields = (if truthy use_case_code then setitem fields ''ucid'' use_case_code
                   else fields);
         fields = (if originating_ip \<noteq> PyNone
                   then setitem fields ''originating_ip'' originating_ip else fields);
         fields = (case extra of None \<Rightarrow> fields | Some x \<Rightarrow> dict_update fields x)
     in case call_generate_auth_headers e (customer_id (client w)) (secret_key (client w))
               resource method (Some fields) w of
          (Inl exn, w1) \<Rightarrow> (Inl exn, w1)
        | (Inr hs, w1) \<Rightarrow>
            (case call_requests_post e (url (client w1) @ resource) fields hs (proxy (client w1)) w1 of
               (Inl exn, w2) \<Rightarrow> (Inl exn, w2)
             | (Inr req, w2) \<Rightarrow>
                 (case validate_response e (client w2) req of
                    Inl exn \<Rightarrow> (Inl exn, w2)
                  | Inr resp_obj \<Rightarrow>
                      (Inr (Response_init resp_obj req (Some verify_code)), w2))))"

definition call ::
  "env \<Rightarrow> pyval \<Rightarrow> pyval option \<Rightarrow> pyval option \<Rightarrow> pyval option \<Rightarrow> pyval option \<Rightarrow> pyval option
    \<Rightarrow> pyval option \<Rightarrow> pyval option \<Rightarrow> pyval option \<Rightarrow> dict option \<Rightarrow> world
    \<Rightarrow> (error + Response) \<times> world" where
  "call e phone_number verify_code_arg use_case_code_arg verify_method_arg language_arg
        extension_type_arg redial_arg originating_ip_arg pressx_arg extra w =
    (let verify_code = default_arg PyNone verify_code_arg;
         use_case_code = default_arg PyNone use_case_code_arg;
         verify_method = default_arg (PyStr []) verify_method_arg;
         language = default_arg (PyStr ''en'') language_arg;
         extension_type = default_arg (PyStr []) extension_type_arg;
         redial = default_arg (PyStr []) redial_arg;
         originating_ip = default_arg PyNone originating_ip_arg;
         pressx = default_arg PyNone pressx_arg;
         resource = ''/v1/verify/call'';
         method = ''POST'';
         fields = [(''phone_number'', phone_number), (''language'', language),
                   (''verify_method'', verify_method), (''extension_type'', extension_type),
                   (''redial'', redial)];
         fields = (if truthy verify_code then setitem fields ''verify_code'' verify_code
                   else fields);
         fields = (if truthy pressx then setitem fields ''pressx'' pressx else fields);
         fields = (if truthy use_case_code then setitem fields ''ucid'' use_case_code
                   else fields);
         fields = (if originating_ip \<noteq> PyNone
                   then setitem fields ''originating_ip'' originating_ip else fields);
         fields = (case extra of None \<Rightarrow> fields | Some x \<Rightarrow> dict_update fields x)
     in case call_generate_auth_headers e (customer_id (client w)) (secret_key (client w))
               resource method (Some fields) w of
          (Inl exn, w1) \<Rightarrow> (Inl exn, w1)
        | (Inr hs, w1) \<Rightarrow>
            (case call_requests_post e (url (client w1) @ resource) fields hs (proxy (client w1)) w1 of
               (Inl exn, w2) \<Rightarrow> (Inl exn, w2)
             | (Inr req, w2) \<Rightarrow>
                 (case validate_response e (client w2) req of
                    Inl exn \<Rightarrow> (Inl exn, w2)
                  | Inr resp_obj \<Rightarrow>
                      (Inr (Response_init resp_obj req (Some verify_code)), w2))))"

definition status_op ::
  "env \<Rightarrow> pyval \<Rightarrow> pyval option \<Rightarrow> dict option \<Rightarrow> world \<Rightarrow> (error + Response) \<times> world" where
  "status_op e ref_id verify_code_arg extra w =
    (let verify_code = default_arg PyNone verify_code_arg;
         resource = ''/v1/verify/'' @ py_str ref_id;
         method = ''GET'';
         fields = [];
         fields = (if verify_code \<noteq> PyNone then setitem fields ''verify_code'' verify_code
                   else fields);
         fields = (case extra of None \<Rightarrow> fields | Some x \<Rightarrow> dict_update fields x)
     in case call_generate_auth_headers e (customer_id (client w)) (secret_key (client w))
               resource method None w of
          (Inl exn, w1) \<Rightarrow> (Inl exn, w1)
        | (Inr hs, w1) \<Rightarrow>
            (case call_requests_get e (url (client w1) @ resource) fields hs (proxy (client w1)) w1 of
               (Inl exn, w2) \<Rightarrow> (Inl exn, w2)
             | (Inr req, w2) \<Rightarrow>
                 (case validate_response e (client w2) req of
                    Inl exn \<Rightarrow> (Inl exn, w2)
                  | Inr resp_obj \<Rightarrow> (Inr (Response_init resp_obj req None), w2))))"

section \<open>The canonical string\<close>

text \<open>
  Modelled from the spec: \<^verbatim>\<open>telesign/auth.py\<close>, where \<^verbatim>\<open>generate_auth_headers\<close> builds
  the string it signs, is missing. The specification's section 4.2 gives the builder
  as \<^verbatim>\<open>build_canonical_string(method, resource_path, content_type, content_md5,
  timestamp, nonce)\<close>: the method in upper case, the content MD5, the content type, the
  timestamp, \<^verbatim>\<open>x-ts-nonce:\<close> followed by the nonce, and the resource path, joined by
  line feeds in this order, with nothing after the last. A request without a body
  has the empty string for both the content type and the content MD5.
\<close>

definition upper_char :: "char \<Rightarrow> char" where
  "upper_char c =
    (if (97::nat) \<le> of_char c \<and> (of_char c :: nat) \<le> 122 then char_of (of_char c - (32::nat))
     else c)"

definition upper :: "string \<Rightarrow> string" where
  "upper s = map upper_char s"

fun join :: "string \<Rightarrow> string list \<Rightarrow> string" where
  "join sep [] = []"
| "join sep [x] = x"
| "join sep (x # y # ys) = x @ sep @ join sep (y # ys)"

definition build_canonical_string ::
  "string \<Rightarrow> string \<Rightarrow> string \<Rightarrow> string \<Rightarrow> string \<Rightarrow> string \<Rightarrow> string" where
  "build_canonical_string method resource_path content_type content_md5 timestamp nonce =
    join [CHR 0x0A]
      [upper method, content_md5, content_type, timestamp, ''x-ts-nonce:'' @ nonce,
       resource_path]"

text \<open>
  \<open>split_on c s\<close> is Python's \<^verbatim>\<open>s.split(c)\<close> for a one-character separator: the
  segments between the occurrences of \<open>c\<close>, one more than there are occurrences.
\<close>

fun split_on :: "char \<Rightarrow> string \<Rightarrow> string list" where
  "split_on c [] = [[]]"
| "split_on c (x # xs) =
    (if x = c then [] # split_on c xs
     else (case split_on c xs of
             seg # segs \<Rightarrow> (x # seg) # segs
           | [] \<Rightarrow> [[x]]))"


section \<open>Reading the record of calls; example values\<close>

text \<open>
  \<open>new_calls w w'\<close> are the calls an operation started in \<open>w\<close> has added when it
  leaves \<open>w'\<close>. A path holds a query string when it holds a question mark.
\<close>

definition new_calls :: "world \<Rightarrow> world \<Rightarrow> outcall list" where
  "new_calls w w' = drop (length (calls w)) (calls w')"

definition has_query_string :: "string \<Rightarrow> bool" where
  "has_query_string p = (CHR ''?'' \<in> set p)"

text \<open>
  The mapping each operation assembles before it asks for the headers, written out on
  its own: \<open>standard_fields\<close> for \<^verbatim>\<open>PhoneId.standard\<close>, \<open>ucid_fields\<close> for the three
  operations \<^verbatim>\<open>score\<close>, \<^verbatim>\<open>contact\<close> and \<^verbatim>\<open>live\<close>, whose assembly is the same text,
  \<open>sms_fields\<close>, \<open>call_fields\<close> and \<open>status_fields\<close> for the operations of
  \<^verbatim>\<open>Verify\<close>. The arguments are the values after the defaults have been filled in.
  The lemmas \<open>standard_effect\<close> to \<open>status_op_effect\<close> below show that these are the
  mappings the operations use.
\<close>

definition standard_fields :: "pyval \<Rightarrow> dict option \<Rightarrow> dict" where
  "standard_fields use_case_code extra =
    (let fields = [];
         fields = (if truthy use_case_code then setitem fields ''ucid'' use_case_code else fields)
     in case extra of None \<Rightarrow> fields | Some x \<Rightarrow> dict_update fields x)"

definition ucid_fields :: "pyval \<Rightarrow> dict option \<Rightarrow> dict" where
  "ucid_fields use_case_code extra =
    (let fields = [(''ucid'', use_case_code)]
     in case extra of None \<Rightarrow> fields | Some x \<Rightarrow> dict_update fields x)"

definition sms_fields ::
  "pyval \<Rightarrow> pyval \<Rightarrow> pyval \<Rightarrow> pyval \<Rightarrow> pyval \<Rightarrow> pyval \<Rightarrow> dict option \<Rightarrow> dict" where
  "sms_fields phone_number verify_code' language template use_case_code originating_ip extra =
    (let fields = [(''phone_number'', phone_number), (''language'', language),
                   (''template'', template)];
         fields = (if truthy verify_code' then setitem fields ''verify_code'' verify_code'
                   else fields);
         fields = (if truthy use_case_code then setitem fields ''ucid'' use_case_code
                   else fields);
         fields = (if originating_ip \<noteq> PyNone
                   then setitem fields ''originating_ip'' originating_ip else fields)
     in case extra of None \<Rightarrow> fields | Some x \<Rightarrow> dict_update fields x)"

definition call_fields ::
  "pyval \<Rightarrow> pyval \<Rightarrow> pyval \<Rightarrow> pyval \<Rightarrow> pyval \<Rightarrow> pyval \<Rightarrow> pyval \<Rightarrow> pyval \<Rightarrow> pyval
    \<Rightarrow> dict option \<Rightarrow> dict" where
  "call_fields phone_number verify_code' use_case_code verify_method language extension_type
       redial originating_ip pressx extra =
    (let fields = [(''phone_number'', phone_number), (''language'', language),
                   (''verify_method'', verify_method), (''extension_type'', extension_type),
                   (''redial'', redial)];
         fields = (if truthy verify_code' then setitem fields ''verify_code'' verify_code'
                   else fields);
         fields = (if truthy pressx then setitem fields ''pressx'' pressx else fields);
         fields = (if truthy use_case_code then setitem fields ''ucid'' use_case_code
                   else fields);
         fields = (if originating_ip \<noteq> PyNone
                   then setitem fields ''originating_ip'' originating_ip else fields)
     in case extra of None \<Rightarrow> fields | Some x \<Rightarrow> dict_update fields x)"

definition status_fields :: "pyval \<Rightarrow> dict option \<Rightarrow> dict" where
  "status_fields verify_code' extra =
    (let fields = [];
         fields = (if verify_code' \<noteq> PyNone then setitem fields ''verify_code'' verify_code'
                   else fields)
     in case extra of None \<Rightarrow> fields | Some x \<Rightarrow> dict_update fields x)"

text \<open>
  A service that signs every request and answers every request with status 200 and
  the body \<^verbatim>\<open>{}\<close>, an interpreter with the default limits, and a client built with the
  default host, with no draw taken and no call made yet.
\<close>

definition example_env :: env where
  "example_env =
    \<lparr>generate_auth_headers = (\<lambda>cid key resource method flds.
        Inr [(''Authorization'', ''TSA '' @ cid @ '':c2ln''), (''x-ts-nonce'', ''n1'')]),
     requests_get = (\<lambda>u params hs proxies.
        Inr \<lparr>status_code = 200, resp_text = ''{}'', resp_headers = []\<rparr>),
     requests_post = (\<lambda>u body hs proxies.
        Inr \<lparr>status_code = 200, resp_text = ''{}'', resp_headers = []\<rparr>),
     json_loads = py_json_loads default_limits\<rparr>"

definition example_world :: world where
  "example_world =
    \<lparr>client = Verify_init ''CUST1'' ''dGVzdGtleQ=='' None None None,
     rng = \<lparr>source = (\<lambda>i. 7 * i + 3), consumed = 0\<rparr>,
     calls = []\<rparr>"

section \<open>Properties of the code generator\<close>

lemma choice_digits:
  "choice ''0123456789'' g =
     (Inr (''0123456789'' ! (source g (consumed g) mod 10)), g\<lparr>consumed := Suc (consumed g)\<rparr>)"
  by (simp add: choice_def)

lemma digits_nth_mem: "''0123456789'' ! (d mod 10) \<in> set ''0123456789''"
  by (rule nth_mem) simp

lemma join_choices_digits:
  "\<exists>s. fst (join_choices k g) = Inr s \<and> length s = k \<and> set s \<subseteq> set ''0123456789''"
proof (induction k arbitrary: g)
  case 0
  show ?case by simp
next
  case (Suc k)
  let ?g' = "g\<lparr>consumed := Suc (consumed g)\<rparr>"
  let ?c = "''0123456789'' ! (source g (consumed g) mod 10)"
  from Suc.IH [of ?g'] obtain s where s: "fst (join_choices k ?g') = Inr s" "length s = k"
    "set s \<subseteq> set ''0123456789''" by blast
  have "fst (join_choices (Suc k) g) = Inr (?c # s)"
    using s(1) by (simp only: join_choices.simps choice_digits split: prod.splits sum.splits) auto
  moreover have "?c \<in> set ''0123456789''" by (rule digits_nth_mem)
  ultimately show ?case using s(2,3) by (intro exI [of _ "?c # s"]) simp
qed

lemma fst_random_with_n_digits:
  "fst (random_with_n_digits n w) = fst (join_choices (nat n) (rng w))"
  by (simp add: random_with_n_digits_def case_prod_beta)

text \<open>
  Claim C4. For every positive length \<open>n\<close> and every sequence of draws (the \<open>source\<close>
  of the generator in \<open>w\<close> is arbitrary), \<open>random_with_n_digits\<close> returns a string,
  the string has exactly \<open>n\<close> characters, and each of them is a decimal digit.
\<close>

theorem random_with_n_digits_length_digits:
  "0 < n \<Longrightarrow>
     \<exists>s. fst (random_with_n_digits n w) = Inr s \<and> int (length s) = n \<and>
         (\<forall>c \<in> set s. c \<in> set ''0123456789'')"
proof -
  assume n: "0 < n"
  obtain s where s: "fst (join_choices (nat n) (rng w)) = Inr s" "length s = nat n"
    "set s \<subseteq> set ''0123456789''" using join_choices_digits by blast
  have "fst (random_with_n_digits n w) = Inr s"
    using s(1) by (simp only: fst_random_with_n_digits)
  moreover have "int (length s) = n" using s(2) n by simp
  moreover have "\<forall>c \<in> set s. c \<in> set ''0123456789''" using s(3) by blast
  ultimately show ?thesis by blast
qed

theorem random_with_n_digits_length_digits_witness:
  "\<exists>s. fst (random_with_n_digits 6 example_world) = Inr s \<and> int (length s) = 6 \<and>
         (\<forall>c \<in> set s. c \<in> set ''0123456789'')"
proof -
  have "(0::int) < 6" by simp
  then show ?thesis by (rule random_with_n_digits_length_digits)
qed

text \<open>
  Claim C5, as stated, fails: asked for a length of 0 or of -3, the generator raises
  nothing and returns the empty string.
\<close>

theorem random_with_n_digits_nonpositive_counterexample:
  "fst (random_with_n_digits 0 example_world) = Inr [] \<and>
   fst (random_with_n_digits (- 3) example_world) = Inr []"
  by (simp add: fst_random_with_n_digits)

text \<open>
  Claim C5, amended. The generator has no check of its argument and never fails on
  an integer length: it always returns a string, and for a length less than or equal
  to zero it returns the empty string and leaves the random source as it was.
\<close>

theorem random_with_n_digits_never_fails:
  "(\<exists>s. fst (random_with_n_digits n w) = Inr s) \<and>
   (n \<le> 0 \<longrightarrow> random_with_n_digits n w = (Inr [], w))"
proof -
  obtain s where "fst (join_choices (nat n) (rng w)) = Inr s"
    using join_choices_digits by blast
  then have "fst (random_with_n_digits n w) = Inr s"
    by (simp only: fst_random_with_n_digits)
  moreover have "n \<le> 0 \<longrightarrow> random_with_n_digits n w = (Inr [], w)"
    by (simp add: random_with_n_digits_def)
  ultimately show ?thesis by blast
qed

theorem random_with_n_digits_never_fails_witness:
  "(\<exists>s. fst (random_with_n_digits (- 3) example_world) = Inr s) \<and>
   random_with_n_digits (- 3) example_world = (Inr [], example_world)"
  using random_with_n_digits_never_fails [of "- 3" example_world] by simp


section \<open>Properties of the decoder\<close>

text \<open>
  Every token takes at least one character of the text, so the bound of \<open>run\<close> is
  never what stops the decoder: under every bound from the length of the text upwards
  the result is the same (\<open>run_enough\<close>). A text of \<open>n\<close> opening brackets raises
  \<^verbatim>\<open>RecursionError\<close> when there is room for fewer than \<open>n\<close> arrays, and the decoding
  error otherwise.
\<close>

lemma length_skip_ws: "length (skip_ws s) \<le> length s"
  by (simp add: skip_ws_def length_dropWhile_le)

lemma scanstring_shorter: "scanstring s = Some (k, r) \<Longrightarrow> length r < length s"
proof (induction s arbitrary: k r rule: scanstring.induct)
  case 1
  then show ?case by simp
next
  case (2 c cs)
  show ?case
  proof (cases "c = CHR 0x22")
    case True
    with "2.prems" show ?thesis by simp
  next
    case nq: False
    show ?thesis
    proof (cases "c = CHR 0x5C")
      case False
      with nq "2.prems" obtain k' where "scanstring cs = Some (k', r)"
        by (auto split: if_splits)
      with "2.IH"(3) [OF nq False] nq False "2.prems" show ?thesis
        by (fastforce split: if_splits)
    next
      case True
      with nq "2.prems" obtain e es where cs: "cs = e # es"
        by (cases cs) auto
      show ?thesis
      proof (cases "e = CHR ''u''")
        case u: True
        with nq True cs "2.prems" obtain n used where ue: "unicode_escape es = Some (n, used)"
          by (cases "unicode_escape es") auto
        with u nq True cs "2.prems" obtain k' where "scanstring (drop used es) = Some (k', r)"
          by auto
        then have "length r < length (drop used es)"
          using "2.IH"(1) [OF nq True cs u ue refl] by simp
        with cs show ?thesis by simp
      next
        case u: False
        with nq True cs "2.prems" obtain n where ec: "escape_char e = Some n"
          by (cases "escape_char e") auto
        with u nq True cs "2.prems" obtain k' where "scanstring es = Some (k', r)"
          by auto
        then have "length r < length es"
          using "2.IH"(2) [OF nq True cs u ec] by simp
        with cs show ?thesis by simp
      qed
    qed
  qed
qed

lemma match_literal_shorter:
  "match_literal ls s = Some (v, r) \<Longrightarrow> \<forall>(p, v) \<in> set ls. p \<noteq> [] \<Longrightarrow> length r < length s"
proof (induction ls)
  case Nil
  then show ?case by simp
next
  case (Cons a ls)
  obtain p v' where a: "a = (p, v')" by (cases a)
  show ?case
  proof (cases "take (length p) s = p")
    case True
    with Cons.prems a have r: "r = drop (length p) s" and p: "p \<noteq> []" by auto
    from True p have "s \<noteq> []" by auto
    with r p show ?thesis by (cases s) auto
  next
    case False
    with Cons a show ?thesis by auto
  qed
qed

lemma literals_shorter: "match_literal literals s = Some (v, r) \<Longrightarrow> length r < length s"
  by (erule match_literal_shorter) (simp add: literals_def)

lemma number_sign_length: "number_sign s = (sg, r) \<Longrightarrow> length r \<le> length s"
  by (auto simp: number_sign_def split: list.splits if_splits)

lemma exponent_sign_length: "exponent_sign s = (sg, r) \<Longrightarrow> length r \<le> length s"
  by (auto simp: exponent_sign_def split: list.splits if_splits)

lemma integer_part_shorter: "integer_part s = Some (ip, r) \<Longrightarrow> length r < length s"
  by (auto simp: integer_part_def le_imp_less_Suc length_dropWhile_le split: list.splits if_splits)

lemma fraction_part_length: "fraction_part s = (fp, r) \<Longrightarrow> length r \<le> length s"
  by (auto simp: fraction_part_def le_SucI length_dropWhile_le split: list.splits if_splits)

lemma exponent_part_length: "exponent_part s = (ep, r) \<Longrightarrow> length r \<le> length s"
proof (cases s)
  case Nil
  then show "exponent_part s = (ep, r) \<Longrightarrow> ?thesis" by (simp add: exponent_part_def)
next
  case (Cons e es)
  assume a: "exponent_part s = (ep, r)"
  obtain sg es' where sg: "exponent_sign es = (sg, es')" by (cases "exponent_sign es")
  then have "length es' \<le> length es" by (rule exponent_sign_length)
  moreover have "length (dropWhile is_digit es') \<le> length es'" by (rule length_dropWhile_le)
  ultimately have "length (dropWhile is_digit es') \<le> length s" using Cons by simp
  with a Cons sg show ?thesis
    by (auto simp: exponent_part_def split: if_splits)
qed

lemma match_number_shorter: "match_number s = Some (t, r) \<Longrightarrow> length r < length s"
proof -
  assume a: "match_number s = Some (t, r)"
  obtain sg s1 where 1: "number_sign s = (sg, s1)" by (cases "number_sign s")
  with a obtain ip r1 where 2: "integer_part s1 = Some (ip, r1)"
    by (cases "integer_part s1") (auto simp: match_number_def)
  obtain fp r2 where 3: "fraction_part r1 = (fp, r2)" by (cases "fraction_part r1")
  obtain ep r3 where 4: "exponent_part r2 = (ep, r3)" by (cases "exponent_part r2")
  from a 1 2 3 4 have "r = r3" by (auto simp: match_number_def split: if_splits)
  moreover from 1 have "length s1 \<le> length s" by (rule number_sign_length)
  moreover from 2 have "length r1 < length s1" by (rule integer_part_shorter)
  moreover from 3 have "length r2 \<le> length r1" by (rule fraction_part_length)
  moreover from 4 have "length r3 \<le> length r2" by (rule exponent_part_length)
  ultimately show ?thesis by simp
qed

lemma next_token_shorter: "next_token s = Some (t, r) \<Longrightarrow> length r < length s"
proof -
  assume a: "next_token s = Some (t, r)"
  then obtain c cs where s: "skip_ws s = c # cs" by (cases "skip_ws s") (auto simp: next_token_def)
  then have le: "length cs < length s" using length_skip_ws [of s] by simp
  have "length r \<le> length cs"
  proof (cases "c = CHR 0x22")
    case True
    show ?thesis
    proof (cases "scanstring cs")
      case None
      with a s True show ?thesis by (simp add: next_token_def)
    next
      case (Some kr)
      obtain k r' where kr: "kr = (k, r')" by (cases kr)
      with Some have "scanstring cs = Some (k, r')" by simp
      then have "length r' < length cs" by (rule scanstring_shorter)
      with a s True Some kr show ?thesis by (simp add: next_token_def)
    qed
  next
    case nq: False
    show ?thesis
    proof (cases "c \<in> set ''{}[],:''")
      case True
      with a s nq show ?thesis by (auto simp: next_token_def split: if_splits)
    next
      case False
      then have np: "c \<noteq> CHR ''{''" "c \<noteq> CHR ''}''" "c \<noteq> CHR ''[''" "c \<noteq> CHR '']''"
        "c \<noteq> CHR '',''" "c \<noteq> CHR '':''" by auto
      show ?thesis
      proof (cases "match_literal literals (c # cs)")
        case (Some vr)
        obtain v r' where vr: "vr = (v, r')" by (cases vr)
        with Some have "match_literal literals (c # cs) = Some (v, r')" by simp
        then have "length r' < length (c # cs)" by (rule literals_shorter)
        with a s nq np Some vr show ?thesis by (simp add: next_token_def)
      next
        case None
        show ?thesis
        proof (cases "match_number (c # cs)")
          case (Some tr)
          obtain t' r' where tr: "tr = (t', r')" by (cases tr)
          with Some have "match_number (c # cs) = Some (t', r')" by simp
          then have "length r' < length (c # cs)" by (rule match_number_shorter)
          with a s nq np None Some tr show ?thesis by (simp add: next_token_def)
        next
          case n2: None
          with a s nq np None show ?thesis by (simp add: next_token_def)
        qed
      qed
    qed
  qed
  with le show ?thesis by simp
qed

lemma run_enough:
  "length s \<le> n \<Longrightarrow> length s \<le> m \<Longrightarrow> run lim n st s = run lim m st s"
proof (induction n arbitrary: m st s)
  case 0
  then have "next_token s = None" by (simp add: next_token_def skip_ws_def)
  then show ?case by (cases m) simp_all
next
  case (Suc n)
  show ?case
  proof (cases "next_token s")
    case None
    then show ?thesis by (cases m) simp_all
  next
    case (Some tr)
    obtain t r where tr: "tr = (t, r)" by (cases tr)
    with Some have "next_token s = Some (t, r)" by simp
    then have r: "length r < length s" by (rule next_token_shorter)
    with Suc.prems obtain m' where m: "m = Suc m'" by (cases m) auto
    from r Suc.prems m have "length r \<le> n" "length r \<le> m'" by simp_all
    then have "run lim n st' r = run lim m' st' r" for st' by (rule Suc.IH)
    with Some tr m show ?thesis by (simp split: sum.splits)
  qed
qed

lemma py_json_loads_run: "length s \<le> n \<Longrightarrow> py_json_loads lim s = run lim n (Value, []) s"
  unfolding py_json_loads_def by (rule run_enough) simp_all

lemma next_token_open: "next_token (CHR ''['' # s) = Some (TBeginArray, s)"
  by (simp add: next_token_def skip_ws_def is_ws_def)

lemma run_too_deep:
  "max_depth lim < length fs + n \<Longrightarrow> length fs \<le> max_depth lim \<Longrightarrow> n \<le> k \<Longrightarrow>
   m = Value \<or> m = ValueOrEndArray \<Longrightarrow>
   run lim k (m, fs) (replicate n (CHR ''['')) = Inl RecursionError"
proof (induction n arbitrary: k m fs)
  case 0
  then show ?case by simp
next
  case (Suc n)
  from Suc.prems obtain k' where k: "k = Suc k'" by (cases k) auto
  show ?case
  proof (cases "length fs < max_depth lim")
    case False
    with Suc.prems k show ?thesis
      by (auto simp: next_token_open step_def start_value_def)
  next
    case True
    with Suc.prems k have
      "run lim k' (ValueOrEndArray, FArray [] # fs) (replicate n (CHR ''['')) = Inl RecursionError"
      by (intro Suc.IH) simp_all
    with True Suc.prems k show ?thesis
      by (auto simp: next_token_open step_def start_value_def)
  qed
qed

lemma run_unclosed:
  "length fs + n \<le> max_depth lim \<Longrightarrow> n \<le> k \<Longrightarrow> m = Value \<or> m = ValueOrEndArray \<Longrightarrow>
   run lim k (m, fs) (replicate n (CHR ''['')) = Inl JSONDecodeError"
proof (induction n arbitrary: k m fs)
  case 0
  then show ?case by (cases k) (auto simp: next_token_def skip_ws_def)
next
  case (Suc n)
  from Suc.prems obtain k' where k: "k = Suc k'" by (cases k) auto
  from Suc.prems k have
    "run lim k' (ValueOrEndArray, FArray [] # fs) (replicate n (CHR ''['')) = Inl JSONDecodeError"
    by (intro Suc.IH) simp_all
  with Suc.prems k show ?case
    by (auto simp: next_token_open step_def start_value_def)
qed

lemma py_json_loads_too_deep:
  "max_depth lim < n \<Longrightarrow> py_json_loads lim (replicate n (CHR ''['')) = Inl RecursionError"
  unfolding py_json_loads_def by (rule run_too_deep) simp_all

lemma py_json_loads_unclosed:
  "n \<le> max_depth lim \<Longrightarrow> py_json_loads lim (replicate n (CHR ''['')) = Inl JSONDecodeError"
  unfolding py_json_loads_def by (rule run_unclosed) simp_all

lemma py_json_loads_plain_text: "py_json_loads lim ''Unauthorized'' = Inl JSONDecodeError"
  by (simp add: py_json_loads_def next_token_def skip_ws_def is_ws_def literals_def
        match_number_def number_sign_def integer_part_def is_digit_def step_def start_value_def)

lemma py_json_loads_empty: "py_json_loads lim [] = Inl JSONDecodeError"
  by (simp add: py_json_loads_def next_token_def skip_ws_def)

lemma py_json_loads_empty_object:
  "0 < max_depth lim \<Longrightarrow> py_json_loads lim ''{}'' = Inr (JObject [])"
  by (simp add: py_json_loads_def next_token_def skip_ws_def is_ws_def step_def start_value_def
        end_object_def numeral_2_eq_2)

text \<open>
  The limits never make a text decode: a value returned under some limits is returned
  under all limits that leave more room. So a text on which the decoder raises when
  it has room raises under every tighter limit too, be it with another exception.
\<close>

lemma start_value_more_room:
  "max_depth lim \<le> max_depth lim' \<Longrightarrow>
   max_str_digits lim' = 0 \<or> (0 < max_str_digits lim \<and> max_str_digits lim \<le> max_str_digits lim') \<Longrightarrow>
   start_value lim fs t = Inr st' \<Longrightarrow> start_value lim' fs t = Inr st'"
  by (cases t) (auto simp: start_value_def int_value_def split: if_splits sum.splits)

lemma step_more_room:
  "max_depth lim \<le> max_depth lim' \<Longrightarrow>
   max_str_digits lim' = 0 \<or> (0 < max_str_digits lim \<and> max_str_digits lim \<le> max_str_digits lim') \<Longrightarrow>
   step lim st t = Inr st' \<Longrightarrow> step lim' st t = Inr st'"
  unfolding step_def
  by (cases st; cases "fst st") (auto split: if_splits dest: start_value_more_room)

lemma run_more_room:
  "max_depth lim \<le> max_depth lim' \<Longrightarrow>
   max_str_digits lim' = 0 \<or> (0 < max_str_digits lim \<and> max_str_digits lim \<le> max_str_digits lim') \<Longrightarrow>
   run lim n st s = Inr v \<Longrightarrow> run lim' n st s = Inr v"
proof (induction n arbitrary: st s)
  case 0
  then show ?case by (simp split: option.splits)
next
  case (Suc n)
  show ?case
  proof (cases "next_token s")
    case None
    with Suc.prems show ?thesis by simp
  next
    case (Some tr)
    obtain t r where tr: "tr = (t, r)" by (cases tr)
    with Some Suc.prems(3) obtain st' where st: "step lim st t = Inr st'" and r: "run lim n st' r = Inr v"
      by (auto split: sum.splits)
    from Suc.prems(1,2) st have "step lim' st t = Inr st'" by (rule step_more_room)
    moreover from Suc.prems(1,2) r have "run lim' n st' r = Inr v" by (rule Suc.IH)
    ultimately show ?thesis using Some tr by simp
  qed
qed

lemma py_json_loads_more_room:
  "max_depth lim \<le> max_depth lim' \<Longrightarrow>
   max_str_digits lim' = 0 \<or> (0 < max_str_digits lim \<and> max_str_digits lim \<le> max_str_digits lim') \<Longrightarrow>
   py_json_loads lim s = Inr v \<Longrightarrow> py_json_loads lim' s = Inr v"
  unfolding py_json_loads_def by (rule run_more_room)

section \<open>Properties of \<^verbatim>\<open>_validate_response\<close>\<close>

lemma json_loads_example_env:
  "json_loads example_env ''Unauthorized'' = Inl JSONDecodeError"
  "json_loads example_env [] = Inl JSONDecodeError"
  "json_loads example_env ''{}'' = Inr (JObject [])"
  "json_loads example_env (replicate 3000 (CHR ''['')) = Inl RecursionError"
  by (simp_all add: example_env_def default_limits_def py_json_loads_plain_text
        py_json_loads_empty py_json_loads_empty_object py_json_loads_too_deep)

text \<open>
  Claim C1, as stated, fails. A response with status 401 whose body is the plain text
  \<^verbatim>\<open>Unauthorized\<close> raises the decoding error of \<^verbatim>\<open>json.loads\<close>, not
  \<open>AuthorizationError\<close>; a response with status 200 and an empty body raises it too,
  and returns nothing.
\<close>

theorem validate_response_non_json_counterexample:
  "validate_response example_env (client example_world)
     \<lparr>status_code = 401, resp_text = ''Unauthorized'', resp_headers = []\<rparr> =
     Inl (JsonRaised JSONDecodeError) \<and>
   validate_response example_env (client example_world)
     \<lparr>status_code = 200, resp_text = [], resp_headers = []\<rparr> =
     Inl (JsonRaised JSONDecodeError)"
  by (simp add: validate_response_def json_loads_example_env)

text \<open>
  Claim C1, amended: for every response on whose body \<^verbatim>\<open>json.loads\<close> returns a value,
  \<^verbatim>\<open>_validate_response\<close> raises \<open>AuthorizationError\<close> exactly when the status code is
  401, raises \<open>TelesignError\<close> for every other status code different from 200, and for
  status 200 raises nothing and returns the value \<^verbatim>\<open>json.loads\<close> returned. This holds
  of whatever \<^verbatim>\<open>json.loads\<close> does: \<open>e\<close> is arbitrary.
\<close>

theorem validate_response_by_status:
  "json_loads e (resp_text response) = Inr resp_obj \<Longrightarrow>
     validate_response e self response =
       (if status_code response = 401 then Inl (AuthorizationError resp_obj response)
        else if status_code response \<noteq> 200 then Inl (TelesignError resp_obj response)
        else Inr resp_obj) \<and>
     ((\<exists>j r. validate_response e self response = Inl (AuthorizationError j r))
        \<longleftrightarrow> status_code response = 401)"
  by (simp add: validate_response_def codes_ok_def codes_unauthorized_def)

theorem validate_response_by_status_witness:
  "validate_response example_env (client example_world)
      \<lparr>status_code = 401, resp_text = ''{}'', resp_headers = []\<rparr> =
     Inl (AuthorizationError (JObject []) \<lparr>status_code = 401, resp_text = ''{}'', resp_headers = []\<rparr>) \<and>
   validate_response example_env (client example_world)
      \<lparr>status_code = 500, resp_text = ''{}'', resp_headers = []\<rparr> =
     Inl (TelesignError (JObject []) \<lparr>status_code = 500, resp_text = ''{}'', resp_headers = []\<rparr>) \<and>
   validate_response example_env (client example_world)
      \<lparr>status_code = 200, resp_text = ''{}'', resp_headers = []\<rparr> = Inr (JObject [])"
  using
    validate_response_by_status [of example_env
      "\<lparr>status_code = 401, resp_text = ''{}'', resp_headers = []\<rparr>"
      "JObject []" "client example_world"]
    validate_response_by_status [of example_env
      "\<lparr>status_code = 500, resp_text = ''{}'', resp_headers = []\<rparr>"
      "JObject []" "client example_world"]
    validate_response_by_status [of example_env
      "\<lparr>status_code = 200, resp_text = ''{}'', resp_headers = []\<rparr>"
      "JObject []" "client example_world"]
  by (simp add: json_loads_example_env)

text \<open>
  Claim C9, as stated, fails. A body of 3000 opening brackets is not valid JSON: a
  decoder with room for 3000 arrays one inside the other raises the decoding error
  when the text ends. Under the default recursion limit \<^verbatim>\<open>json.loads\<close> has no room for
  them and raises \<^verbatim>\<open>RecursionError\<close> before it comes to the end of the text (as it
  does under every limit below 3000, by \<open>py_json_loads_too_deep\<close>), and
  \<^verbatim>\<open>RecursionError\<close> is what leaves \<^verbatim>\<open>_validate_response\<close>, at status 401 as at status
  200: the body is not valid JSON and the exception is not the JSON-decoding error.
\<close>

theorem validate_response_recursion_counterexample:
  "py_json_loads \<lparr>max_depth = 3000, max_str_digits = 4300\<rparr> (replicate 3000 (CHR ''['')) =
     Inl JSONDecodeError \<and>
   validate_response example_env (client example_world)
     \<lparr>status_code = 401, resp_text = replicate 3000 (CHR ''[''), resp_headers = []\<rparr> =
     Inl (JsonRaised RecursionError) \<and>
   validate_response example_env (client example_world)
     \<lparr>status_code = 200, resp_text = replicate 3000 (CHR ''[''), resp_headers = []\<rparr> =
     Inl (JsonRaised RecursionError)"
  by (simp add: validate_response_def json_loads_example_env py_json_loads_unclosed)

text \<open>
  Claim C9, amended. The body is handed to \<^verbatim>\<open>json.loads\<close> before the status code is
  looked at: whenever \<^verbatim>\<open>json.loads\<close> raises on the body, that exception, and no other,
  leaves \<^verbatim>\<open>_validate_response\<close> whatever the status code; an exception of
  \<^verbatim>\<open>json.loads\<close> leaves \<^verbatim>\<open>_validate_response\<close> only when \<^verbatim>\<open>json.loads\<close> has raised
  it on the body; and when \<open>AuthorizationError\<close> or \<open>TelesignError\<close> is raised,
  \<^verbatim>\<open>json.loads\<close> has returned a value on the body of the response, the value the
  exception carries. This holds of whatever \<^verbatim>\<open>json.loads\<close> does: \<open>e\<close> is arbitrary.
\<close>

theorem validate_response_decodes_first:
  "(json_loads e (resp_text response) = Inl x \<longrightarrow>
      validate_response e self response = Inl (JsonRaised x)) \<and>
   (validate_response e self response = Inl (JsonRaised x) \<longrightarrow>
      json_loads e (resp_text response) = Inl x) \<and>
   (\<forall>j r. validate_response e self response = Inl (AuthorizationError j r) \<or>
          validate_response e self response = Inl (TelesignError j r)
        \<longrightarrow> json_loads e (resp_text response) = Inr j \<and> r = response)"
  by (auto simp: validate_response_def split: sum.splits if_splits)

theorem validate_response_decodes_first_witness:
  "validate_response example_env (client example_world)
     \<lparr>status_code = 401, resp_text = ''Unauthorized'', resp_headers = []\<rparr> =
     Inl (JsonRaised JSONDecodeError) \<and>
   validate_response example_env (client example_world)
     \<lparr>status_code = 500, resp_text = ''Unauthorized'', resp_headers = []\<rparr> =
     Inl (JsonRaised JSONDecodeError) \<and>
   validate_response example_env (client example_world)
     \<lparr>status_code = 200, resp_text = ''Unauthorized'', resp_headers = []\<rparr> =
     Inl (JsonRaised JSONDecodeError) \<and>
   validate_response example_env (client example_world)
     \<lparr>status_code = 500, resp_text = replicate 3000 (CHR ''[''), resp_headers = []\<rparr> =
     Inl (JsonRaised RecursionError)"
  using
    validate_response_decodes_first [of example_env
      "\<lparr>status_code = 401, resp_text = ''Unauthorized'', resp_headers = []\<rparr>"
      JSONDecodeError "client example_world"]
    validate_response_decodes_first [of example_env
      "\<lparr>status_code = 500, resp_text = ''Unauthorized'', resp_headers = []\<rparr>"
      JSONDecodeError "client example_world"]
    validate_response_decodes_first [of example_env
      "\<lparr>status_code = 200, resp_text = ''Unauthorized'', resp_headers = []\<rparr>"
      JSONDecodeError "client example_world"]
    validate_response_decodes_first [of example_env
      "\<lparr>status_code = 500, resp_text = replicate 3000 (CHR ''[''), resp_headers = []\<rparr>"
      RecursionError "client example_world"]
  by (simp add: json_loads_example_env)


section \<open>What an operation does to the state\<close>

text \<open>
  Each operation leaves the state it started in with calls appended and nothing else
  changed: first the call of \<^verbatim>\<open>generate_auth_headers\<close> and, when that returns headers,
  the HTTP request. The two lemmas \<open>post_tail_world\<close> and \<open>get_tail_world\<close> say so for
  the part of an operation after its fields are assembled; \<open>tail_result\<close> says that a
  result, when there is one, is built by the operation's last line.
\<close>

lemmas call_defs = call_generate_auth_headers_def call_requests_get_def call_requests_post_def

lemma post_tail_world:
  "snd (case call_generate_auth_headers e c k r m fo w of
          (Inl exn, w1) \<Rightarrow> (Inl exn, w1)
        | (Inr hs, w1) \<Rightarrow>
            (case call_requests_post e (U w1) F hs (P w1) w1 of
               (Inl exn, w2) \<Rightarrow> (Inl exn, w2)
             | (Inr req, w2) \<Rightarrow>
                 (case V w2 req of
                    Inl exn \<Rightarrow> (Inl exn, w2)
                  | Inr resp_obj \<Rightarrow> (Inr (G resp_obj req), w2)))) =
   w\<lparr>calls := calls w @ GenerateAuthHeaders c k r m fo #
        (case generate_auth_headers e c k r m fo of
           Inl exn \<Rightarrow> []
         | Inr hs \<Rightarrow> [RequestsPost (U (w\<lparr>calls := calls w @ [GenerateAuthHeaders c k r m fo]\<rparr>)) F hs
                        (P (w\<lparr>calls := calls w @ [GenerateAuthHeaders c k r m fo]\<rparr>))])\<rparr>"
  by (simp add: call_defs split: sum.splits)

lemma get_tail_world:
  "snd (case call_generate_auth_headers e c k r m fo w of
          (Inl exn, w1) \<Rightarrow> (Inl exn, w1)
        | (Inr hs, w1) \<Rightarrow>
            (case call_requests_get e (U w1) F hs (P w1) w1 of
               (Inl exn, w2) \<Rightarrow> (Inl exn, w2)
             | (Inr req, w2) \<Rightarrow>
                 (case V w2 req of
                    Inl exn \<Rightarrow> (Inl exn, w2)
                  | Inr resp_obj \<Rightarrow> (Inr (G resp_obj req), w2)))) =
   w\<lparr>calls := calls w @ GenerateAuthHeaders c k r m fo #
        (case generate_auth_headers e c k r m fo of
           Inl exn \<Rightarrow> []
         | Inr hs \<Rightarrow> [RequestsGet (U (w\<lparr>calls := calls w @ [GenerateAuthHeaders c k r m fo]\<rparr>)) F hs
                        (P (w\<lparr>calls := calls w @ [GenerateAuthHeaders c k r m fo]\<rparr>))])\<rparr>"
  by (simp add: call_defs split: sum.splits)

lemma sms_effect:
  "snd (sms e pn vc la te uc ip ex w) =
     w\<lparr>calls := calls w @
        GenerateAuthHeaders (customer_id (client w)) (secret_key (client w)) ''/v1/verify/sms''
          ''POST''
          (Some (sms_fields pn (default_arg PyNone vc) (default_arg (PyStr ''en'') la)
                   (default_arg (PyStr []) te) (default_arg PyNone uc) (default_arg PyNone ip) ex)) #
        (case generate_auth_headers e (customer_id (client w)) (secret_key (client w))
                ''/v1/verify/sms'' ''POST''
                (Some (sms_fields pn (default_arg PyNone vc) (default_arg (PyStr ''en'') la)
                   (default_arg (PyStr []) te) (default_arg PyNone uc) (default_arg PyNone ip) ex)) of
           Inl exn \<Rightarrow> []
         | Inr hs \<Rightarrow>
             [RequestsPost (url (client w) @ ''/v1/verify/sms'')
                (sms_fields pn (default_arg PyNone vc) (default_arg (PyStr ''en'') la)
                   (default_arg (PyStr []) te) (default_arg PyNone uc) (default_arg PyNone ip) ex)
                hs (proxy (client w))])\<rparr>"
  unfolding sms_def sms_fields_def
  by (simp only: Let_def post_tail_world) (simp split del: if_split cong: sum.case_cong option.case_cong)

lemma standard_effect:
  "snd (standard e pn uc ex w) =
     w\<lparr>calls := calls w @
        GenerateAuthHeaders (customer_id (client w)) (secret_key (client w))
          (''/v1/phoneid/standard/'' @ py_str pn) ''GET'' None #
        (case generate_auth_headers e (customer_id (client w)) (secret_key (client w))
                (''/v1/phoneid/standard/'' @ py_str pn) ''GET'' None of
           Inl exn \<Rightarrow> []
         | Inr hs \<Rightarrow>
             [RequestsGet (url (client w) @ ''/v1/phoneid/standard/'' @ py_str pn)
                (standard_fields (default_arg PyNone uc) ex) hs (proxy (client w))])\<rparr>"
  unfolding standard_def standard_fields_def
  by (simp only: Let_def get_tail_world) (simp split del: if_split cong: sum.case_cong option.case_cong)


lemma score_effect:
  "snd (score e pn uc ex w) =
     w\<lparr>calls := calls w @
        GenerateAuthHeaders (customer_id (client w)) (secret_key (client w))
          (''/v1/phoneid/score/'' @ py_str pn) ''GET'' None #
        (case generate_auth_headers e (customer_id (client w)) (secret_key (client w))
                (''/v1/phoneid/score/'' @ py_str pn) ''GET'' None of
           Inl exn \<Rightarrow> []
         | Inr hs \<Rightarrow>
             [RequestsGet (url (client w) @ ''/v1/phoneid/score/'' @ py_str pn)
                (ucid_fields uc ex) hs (proxy (client w))])\<rparr>"
  unfolding score_def ucid_fields_def
  by (simp only: Let_def get_tail_world) (simp split del: if_split cong: sum.case_cong option.case_cong)

lemma contact_effect:
  "snd (contact e pn uc ex w) =
     w\<lparr>calls := calls w @
        GenerateAuthHeaders (customer_id (client w)) (secret_key (client w))
          (''/v1/phoneid/contact/'' @ py_str pn) ''GET'' None #
        (case generate_auth_headers e (customer_id (client w)) (secret_key (client w))
                (''/v1/phoneid/contact/'' @ py_str pn) ''GET'' None of
           Inl exn \<Rightarrow> []
         | Inr hs \<Rightarrow>
             [RequestsGet (url (client w) @ ''/v1/phoneid/contact/'' @ py_str pn)
                (ucid_fields uc ex) hs (proxy (client w))])\<rparr>"
  unfolding contact_def ucid_fields_def
  by (simp only: Let_def get_tail_world) (simp split del: if_split cong: sum.case_cong option.case_cong)

lemma live_effect:
  "snd (live e pn uc ex w) =
     w\<lparr>calls := calls w @
        GenerateAuthHeaders (customer_id (client w)) (secret_key (client w))
          (''/v1/phoneid/live/'' @ py_str pn) ''GET'' None #
        (case generate_auth_headers e (customer_id (client w)) (secret_key (client w))
                (''/v1/phoneid/live/'' @ py_str pn) ''GET'' None of
           Inl exn \<Rightarrow> []
         | Inr hs \<Rightarrow>
             [RequestsGet (url (client w) @ ''/v1/phoneid/live/'' @ py_str pn)
                (ucid_fields uc ex) hs (proxy (client w))])\<rparr>"
  unfolding live_def ucid_fields_def
  by (simp only: Let_def get_tail_world) (simp split del: if_split cong: sum.case_cong option.case_cong)

lemma status_op_effect:
  "snd (status_op e ref_id vc ex w) =
     w\<lparr>calls := calls w @
        GenerateAuthHeaders (customer_id (client w)) (secret_key (client w))
          (''/v1/verify/'' @ py_str ref_id) ''GET'' None #
        (case generate_auth_headers e (customer_id (client w)) (secret_key (client w))
                (''/v1/verify/'' @ py_str ref_id) ''GET'' None of
           Inl exn \<Rightarrow> []
         | Inr hs \<Rightarrow>
             [RequestsGet (url (client w) @ ''/v1/verify/'' @ py_str ref_id)
                (status_fields (default_arg PyNone vc) ex) hs (proxy (client w))])\<rparr>"
  unfolding status_op_def status_fields_def
  by (simp only: Let_def get_tail_world) (simp split del: if_split cong: sum.case_cong option.case_cong)

lemma call_effect:
  "snd (call e pn vc uc vm la et rd ip px ex w) =
     w\<lparr>calls := calls w @
        GenerateAuthHeaders (customer_id (client w)) (secret_key (client w)) ''/v1/verify/call''
          ''POST''
          (Some (call_fields pn (default_arg PyNone vc) (default_arg PyNone uc)
                   (default_arg (PyStr []) vm) (default_arg (PyStr ''en'') la)
                   (default_arg (PyStr []) et) (default_arg (PyStr []) rd)
                   (default_arg PyNone ip) (default_arg PyNone px) ex)) #
        (case generate_auth_headers e (customer_id (client w)) (secret_key (client w))
                ''/v1/verify/call'' ''POST''
                (Some (call_fields pn (default_arg PyNone vc) (default_arg PyNone uc)
                   (default_arg (PyStr []) vm) (default_arg (PyStr ''en'') la)
                   (default_arg (PyStr []) et) (default_arg (PyStr []) rd)
                   (default_arg PyNone ip) (default_arg PyNone px) ex)) of
           Inl exn \<Rightarrow> []
         | Inr hs \<Rightarrow>
             [RequestsPost (url (client w) @ ''/v1/verify/call'')
                (call_fields pn (default_arg PyNone vc) (default_arg PyNone uc)
                   (default_arg (PyStr []) vm) (default_arg (PyStr ''en'') la)
                   (default_arg (PyStr []) et) (default_arg (PyStr []) rd)
                   (default_arg PyNone ip) (default_arg PyNone px) ex)
                hs (proxy (client w))])\<rparr>"
  unfolding call_def call_fields_def
  by (simp only: Let_def post_tail_world) (simp split del: if_split cong: sum.case_cong option.case_cong)

lemma tail_result:
  "fst (case m of
          (Inl exn, w1) \<Rightarrow> (Inl exn, w1)
        | (Inr hs, w1) \<Rightarrow>
            (case R hs w1 of
               (Inl exn, w2) \<Rightarrow> (Inl exn, w2)
             | (Inr req, w2) \<Rightarrow>
                 (case V w2 req of
                    Inl exn \<Rightarrow> (Inl exn, w2)
                  | Inr resp_obj \<Rightarrow> (Inr (G resp_obj req), w2)))) = Inr res
   \<Longrightarrow> \<exists>resp_obj req. res = G resp_obj req"
  by (auto split: prod.splits sum.splits)

lemma sms_verify_code:
  "fst (sms e pn vc la te uc ip ex w) = Inr res \<Longrightarrow> verify_code res = default_arg PyNone vc"
  unfolding sms_def Let_def
  by (drule tail_result) (auto simp: Response_init_def default_arg_def)

lemma call_verify_code:
  "fst (call e pn vc uc vm la et rd ip px ex w) = Inr res \<Longrightarrow>
     verify_code res = default_arg PyNone vc"
  unfolding call_def Let_def
  by (drule tail_result) (auto simp: Response_init_def default_arg_def)


section \<open>Dictionaries: what \<^verbatim>\<open>update\<close> leaves under a key\<close>

lemma map_of_setitem: "map_of (setitem d k v) = (map_of d)(k \<mapsto> v)"
  by (induction d k v rule: setitem.induct) (auto simp: fun_eq_iff)

lemma map_of_dict_update: "map_of (dict_update d x) = map_of d ++ map_of (rev x)"
proof (induction x arbitrary: d)
  case Nil
  show ?case by (simp add: dict_update_def)
next
  case (Cons p x)
  obtain k v where p: "p = (k, v)" by (cases p)
  have "dict_update d (p # x) = dict_update (setitem d k v) x"
    by (simp add: dict_update_def p)
  then have "map_of (dict_update d (p # x)) = map_of (dict_update (setitem d k v) x)"
    by (simp only:)
  also have "\<dots> = map_of (setitem d k v) ++ map_of (rev x)"
    by (rule Cons.IH)
  also have "\<dots> = (map_of d)(k \<mapsto> v) ++ map_of (rev x)"
    by (simp only: map_of_setitem)
  also have "\<dots> = map_of d ++ map_of (rev (p # x))"
    by (simp add: p fun_eq_iff map_add_def split: option.splits)
  finally show ?case .
qed

lemma getitem_dict_update:
  assumes "distinct (map fst x)" and "(k, v) \<in> set x"
  shows "getitem (dict_update d x) k = Some v"
proof -
  have "distinct (map fst (rev x))" using assms(1) by (simp add: rev_map [symmetric])
  moreover have "(k, v) \<in> set (rev x)" using assms(2) by simp
  ultimately have "map_of (rev x) k = Some v" by (rule map_of_is_SomeI)
  then show ?thesis by (simp add: getitem_def map_of_dict_update)
qed

lemma fields_extra:
  assumes "distinct (map fst x)" and "(k, v) \<in> set x"
  shows "getitem (standard_fields uc (Some x)) k = Some v"
    and "getitem (ucid_fields uc' (Some x)) k = Some v"
    and "getitem (sms_fields pn vc la te uc ip (Some x)) k = Some v"
    and "getitem (call_fields pn vc uc vm la et rd ip px (Some x)) k = Some v"
    and "getitem (status_fields vc (Some x)) k = Some v"
  using assms
  by (simp_all only: standard_fields_def ucid_fields_def sms_fields_def call_fields_def
        status_fields_def Let_def option.case getitem_dict_update)


section \<open>The example client\<close>

lemma client_example_world:
  "client example_world =
     \<lparr>customer_id = ''CUST1'', secret_key = ''dGVzdGtleQ=='', api_host = ''rest.telesign.com'',
      proxy = None, url = ''https://rest.telesign.com''\<rparr>"
  by (simp add: example_world_def Verify_init_def ServiceBase_init_def default_arg_def)

lemma example_env_simps:
  "generate_auth_headers example_env cid key resource method flds =
     Inr [(''Authorization'', ''TSA '' @ cid @ '':c2ln''), (''x-ts-nonce'', ''n1'')]"
  "requests_get example_env u params hs proxies =
     Inr \<lparr>status_code = 200, resp_text = ''{}'', resp_headers = []\<rparr>"
  "requests_post example_env u body hs proxies =
     Inr \<lparr>status_code = 200, resp_text = ''{}'', resp_headers = []\<rparr>"
  by (simp_all add: example_env_def)

section \<open>Properties of the operations\<close>

text \<open>
  Claim C2. \<^verbatim>\<open>Verify.sms\<close> and \<^verbatim>\<open>Verify.call\<close> make one call of
  \<^verbatim>\<open>generate_auth_headers\<close>, with the method POST and a fields mapping, and, when it
  returns headers, one POST request: the data of that request is the very mapping that
  was passed to \<^verbatim>\<open>generate_auth_headers\<close>, and its headers are the value
  \<^verbatim>\<open>generate_auth_headers\<close> returned for that mapping, unchanged.
\<close>

theorem sms_call_send_what_they_sign:
  "(let fields = sms_fields pn (default_arg PyNone vc) (default_arg (PyStr ''en'') la)
                   (default_arg (PyStr []) te) (default_arg PyNone uc) (default_arg PyNone ip) ex
    in new_calls w (snd (sms e pn vc la te uc ip ex w)) =
         GenerateAuthHeaders (customer_id (client w)) (secret_key (client w)) ''/v1/verify/sms''
           ''POST'' (Some fields) #
         (case generate_auth_headers e (customer_id (client w)) (secret_key (client w))
                 ''/v1/verify/sms'' ''POST'' (Some fields) of
            Inl exn \<Rightarrow> []
          | Inr hs \<Rightarrow>
              [RequestsPost (url (client w) @ ''/v1/verify/sms'') fields hs (proxy (client w))])) \<and>
   (let fields = call_fields pn (default_arg PyNone vc) (default_arg PyNone uc)
                   (default_arg (PyStr []) vm) (default_arg (PyStr ''en'') la)
                   (default_arg (PyStr []) et) (default_arg (PyStr []) rd)
                   (default_arg PyNone ip) (default_arg PyNone px) ex
    in new_calls w (snd (call e pn vc uc vm la et rd ip px ex w)) =
         GenerateAuthHeaders (customer_id (client w)) (secret_key (client w)) ''/v1/verify/call''
           ''POST'' (Some fields) #
         (case generate_auth_headers e (customer_id (client w)) (secret_key (client w))
                 ''/v1/verify/call'' ''POST'' (Some fields) of
            Inl exn \<Rightarrow> []
          | Inr hs \<Rightarrow>
              [RequestsPost (url (client w) @ ''/v1/verify/call'') fields hs (proxy (client w))]))"
  by (simp only: Let_def sms_effect call_effect new_calls_def) simp

theorem sms_call_send_what_they_sign_witness:
  "new_calls example_world
     (snd (sms example_env (PyStr ''15555550100'') (Some (PyStr ''12345'')) None None
             (Some (PyStr ''ATCK'')) None None example_world)) =
   [GenerateAuthHeaders ''CUST1'' ''dGVzdGtleQ=='' ''/v1/verify/sms'' ''POST''
      (Some [(''phone_number'', PyStr ''15555550100''), (''language'', PyStr ''en''),
             (''template'', PyStr []), (''verify_code'', PyStr ''12345''),
             (''ucid'', PyStr ''ATCK'')]),
    RequestsPost ''https://rest.telesign.com/v1/verify/sms''
      [(''phone_number'', PyStr ''15555550100''), (''language'', PyStr ''en''),
       (''template'', PyStr []), (''verify_code'', PyStr ''12345''), (''ucid'', PyStr ''ATCK'')]
      [(''Authorization'', ''TSA CUST1:c2ln''), (''x-ts-nonce'', ''n1'')] None]"
  using sms_call_send_what_they_sign [where e = example_env and w = example_world
      and pn = "PyStr ''15555550100''" and vc = "Some (PyStr ''12345'')" and la = None
      and te = None and uc = "Some (PyStr ''ATCK'')" and ip = None and ex = None,
      THEN conjunct1]
  by (simp add: Let_def sms_fields_def default_arg_def example_env_simps client_example_world)

text \<open>
  Claim C7. Every public operation (\<^verbatim>\<open>standard\<close>, \<^verbatim>\<open>score\<close>, \<^verbatim>\<open>contact\<close>, \<^verbatim>\<open>live\<close>,
  \<^verbatim>\<open>sms\<close>, \<^verbatim>\<open>call\<close>, \<^verbatim>\<open>status\<close>) leaves the client object as it found it: the record
  of the fields \<^verbatim>\<open>_customer_id\<close>, \<^verbatim>\<open>_secret_key\<close>, \<^verbatim>\<open>_api_host\<close>, \<^verbatim>\<open>_proxy\<close> and \<^verbatim>\<open>_url\<close>
  is the same after the operation as before, whether it returns or raises.
\<close>

theorem operations_keep_client:
  "client (snd (standard e pn uc_opt ex w)) = client w \<and>
   client (snd (score e pn uc ex w)) = client w \<and>
   client (snd (contact e pn uc ex w)) = client w \<and>
   client (snd (live e pn uc ex w)) = client w \<and>
   client (snd (sms e pn vc la te uc_opt ip ex w)) = client w \<and>
   client (snd (call e pn vc uc_opt vm la et rd ip px ex w)) = client w \<and>
   client (snd (status_op e ref_id vc ex w)) = client w"
  by (simp only: standard_effect score_effect contact_effect live_effect sms_effect call_effect
        status_op_effect) simp


theorem operations_keep_client_witness:
  "client (snd (sms example_env (PyStr ''15555550100'') (Some (PyStr ''12345'')) None None
             (Some (PyStr ''ATCK'')) None None example_world)) =
     \<lparr>customer_id = ''CUST1'', secret_key = ''dGVzdGtleQ=='', api_host = ''rest.telesign.com'',
      proxy = None, url = ''https://rest.telesign.com''\<rparr>"
  using operations_keep_client [where e = example_env and w = example_world
      and pn = "PyStr ''15555550100''" and vc = "Some (PyStr ''12345'')" and la = None
      and te = None and uc_opt = "Some (PyStr ''ATCK'')" and ip = None and ex = None]
  by (simp add: client_example_world)


text \<open>
  Claim C6, as stated, fails for an input string with a question mark: called with
  the phone number \<^verbatim>\<open>1?x=y\<close>, \<^verbatim>\<open>PhoneId.standard\<close> passes the resource path
  \<^verbatim>\<open>/v1/phoneid/standard/1?x=y\<close> to \<^verbatim>\<open>generate_auth_headers\<close>, and that path holds a
  query string.
\<close>

theorem standard_query_in_path_counterexample:
  "hd (new_calls example_world
         (snd (standard example_env (PyStr ''1?x=y'') None None example_world))) =
     GenerateAuthHeaders ''CUST1'' ''dGVzdGtleQ=='' ''/v1/phoneid/standard/1?x=y'' ''GET'' None \<and>
   has_query_string ''/v1/phoneid/standard/1?x=y''"
  by (simp add: standard_effect new_calls_def client_example_world has_query_string_def)

text \<open>
  Claim C6, amended. For each query-style operation (\<^verbatim>\<open>PhoneId.standard\<close>, \<^verbatim>\<open>score\<close>,
  \<^verbatim>\<open>contact\<close>, \<^verbatim>\<open>live\<close> and \<^verbatim>\<open>Verify.status\<close>) and every input string \<open>s\<close>, the first
  call is \<^verbatim>\<open>generate_auth_headers\<close> with the endpoint's prefix followed by \<open>s\<close> as it
  is, the method GET and no fields; and every call of \<^verbatim>\<open>generate_auth_headers\<close> these
  operations make has no fields, the method GET and a path that begins with a slash
  and holds a query string exactly when \<open>s\<close> holds one (so none when \<open>s\<close> has none).
\<close>

theorem query_operations_sign_path_only:
  "take 1 (new_calls w (snd (standard e (PyStr s) uc_opt ex w))) =
     [GenerateAuthHeaders (customer_id (client w)) (secret_key (client w))
        (''/v1/phoneid/standard/'' @ s) ''GET'' None] \<and>
   take 1 (new_calls w (snd (score e (PyStr s) uc ex w))) =
     [GenerateAuthHeaders (customer_id (client w)) (secret_key (client w))
        (''/v1/phoneid/score/'' @ s) ''GET'' None] \<and>
   take 1 (new_calls w (snd (contact e (PyStr s) uc ex w))) =
     [GenerateAuthHeaders (customer_id (client w)) (secret_key (client w))
        (''/v1/phoneid/contact/'' @ s) ''GET'' None] \<and>
   take 1 (new_calls w (snd (live e (PyStr s) uc ex w))) =
     [GenerateAuthHeaders (customer_id (client w)) (secret_key (client w))
        (''/v1/phoneid/live/'' @ s) ''GET'' None] \<and>
   take 1 (new_calls w (snd (status_op e (PyStr s) vc ex w))) =
     [GenerateAuthHeaders (customer_id (client w)) (secret_key (client w))
        (''/v1/verify/'' @ s) ''GET'' None] \<and>
   (\<forall>c \<in> set (new_calls w (snd (standard e (PyStr s) uc_opt ex w)) @
               new_calls w (snd (score e (PyStr s) uc ex w)) @
               new_calls w (snd (contact e (PyStr s) uc ex w)) @
               new_calls w (snd (live e (PyStr s) uc ex w)) @
               new_calls w (snd (status_op e (PyStr s) vc ex w))).
      \<forall>cid key resource method flds. c = GenerateAuthHeaders cid key resource method flds \<longrightarrow>
        flds = None \<and> method = ''GET'' \<and> hd resource = CHR ''/'' \<and>
        (has_query_string resource \<longleftrightarrow> has_query_string s))"
  by (simp only: standard_effect score_effect contact_effect live_effect status_op_effect
        new_calls_def)
     (auto simp: has_query_string_def split: sum.splits)


theorem query_operations_sign_path_only_witness:
  "take 1 (new_calls example_world
       (snd (standard example_env (PyStr ''13105551212'') (Some (PyStr ''ATCK'')) None
               example_world))) =
     [GenerateAuthHeaders ''CUST1'' ''dGVzdGtleQ=='' ''/v1/phoneid/standard/13105551212''
        ''GET'' None] \<and>
   \<not> has_query_string ''/v1/phoneid/standard/13105551212''"
  using query_operations_sign_path_only [where e = example_env and w = example_world
      and s = "''13105551212''" and uc_opt = "Some (PyStr ''ATCK'')" and ex = None,
      THEN conjunct1]
  by (simp add: client_example_world has_query_string_def)

lemma sms_example_result:
  "fst (sms example_env (PyStr ''15555550100'') (Some (PyStr ''12345'')) None None
          (Some (PyStr ''ATCK'')) None None example_world) =
     Inr \<lparr>data = JObject [], headers = [], status = 200, raw_data = ''{}'',
          verify_code = PyStr ''12345''\<rparr>"
  by (simp add: sms_def Let_def call_defs example_env_simps validate_response_def
        json_loads_example_env codes_ok_def Response_init_def default_arg_def)

text \<open>
  Claim C8. When \<^verbatim>\<open>Verify.sms\<close> or \<^verbatim>\<open>Verify.call\<close> returns a \<^verbatim>\<open>Response\<close>, its
  \<^verbatim>\<open>verify_code\<close> is the \<^verbatim>\<open>verify_code\<close> argument of the caller, and \<^verbatim>\<open>None\<close> when the
  argument is omitted. No operation takes a draw from the module's \<^verbatim>\<open>rng\<close>, which is
  what every call of \<^verbatim>\<open>random_with_n_digits\<close> with a positive length does: the
  generator's state after each operation is its state before.
\<close>

theorem verify_code_returned_no_code_generated:
  "(fst (sms e pn vc la te uc ip ex w) = Inr res \<longrightarrow> verify_code res = default_arg PyNone vc) \<and>
   (fst (sms e pn None la te uc ip ex w) = Inr res \<longrightarrow> verify_code res = PyNone) \<and>
   (fst (call e pn vc uc vm la et rd ip px ex w) = Inr res \<longrightarrow>
      verify_code res = default_arg PyNone vc) \<and>
   (fst (call e pn None uc vm la et rd ip px ex w) = Inr res \<longrightarrow> verify_code res = PyNone) \<and>
   rng (snd (standard e pn uc ex w)) = rng w \<and>
   rng (snd (score e pn u ex w)) = rng w \<and>
   rng (snd (contact e pn u ex w)) = rng w \<and>
   rng (snd (live e pn u ex w)) = rng w \<and>
   rng (snd (sms e pn vc la te uc ip ex w)) = rng w \<and>
   rng (snd (call e pn vc uc vm la et rd ip px ex w)) = rng w \<and>
   rng (snd (status_op e pn vc ex w)) = rng w"
proof -
  have "fst (sms e pn None la te uc ip ex w) = Inr res \<longrightarrow> verify_code res = PyNone"
    using sms_verify_code [of e pn None la te uc ip ex w res] by (simp add: default_arg_def)
  moreover have
    "fst (call e pn None uc vm la et rd ip px ex w) = Inr res \<longrightarrow> verify_code res = PyNone"
    using call_verify_code [of e pn None uc vm la et rd ip px ex w res]
    by (simp add: default_arg_def)
  moreover have "rng (snd (standard e pn uc ex w)) = rng w"
    by (simp only: standard_effect) simp
  moreover have "rng (snd (score e pn u ex w)) = rng w"
    by (simp only: score_effect) simp
  moreover have "rng (snd (contact e pn u ex w)) = rng w"
    by (simp only: contact_effect) simp
  moreover have "rng (snd (live e pn u ex w)) = rng w"
    by (simp only: live_effect) simp
  moreover have "rng (snd (sms e pn vc la te uc ip ex w)) = rng w"
    by (simp only: sms_effect) simp
  moreover have "rng (snd (call e pn vc uc vm la et rd ip px ex w)) = rng w"
    by (simp only: call_effect) simp
  moreover have "rng (snd (status_op e pn vc ex w)) = rng w"
    by (simp only: status_op_effect) simp
  ultimately show ?thesis
    using sms_verify_code [of e pn vc la te uc ip ex w res]
      call_verify_code [of e pn vc uc vm la et rd ip px ex w res]
    by blast
qed

lemma consumed_example_world: "consumed (rng example_world) = 0"
  by (simp add: example_world_def)

theorem verify_code_returned_no_code_generated_witness:
  "(\<exists>res. fst (sms example_env (PyStr ''15555550100'') (Some (PyStr ''12345'')) None None
               (Some (PyStr ''ATCK'')) None None example_world) = Inr res \<and>
          verify_code res = PyStr ''12345'') \<and>
   consumed (rng (snd (sms example_env (PyStr ''15555550100'') (Some (PyStr ''12345'')) None None
               (Some (PyStr ''ATCK'')) None None example_world))) = 0"
proof -
  let ?res = "\<lparr>data = JObject [], headers = [], status = 200, raw_data = ''{}'',
               verify_code = PyStr ''12345''\<rparr>"
  note t = verify_code_returned_no_code_generated [where e = example_env and w = example_world
      and pn = "PyStr ''15555550100''" and vc = "Some (PyStr ''12345'')" and la = None
      and te = None and uc = "Some (PyStr ''ATCK'')" and ip = None and ex = None
      and vm = None and et = None and rd = None and px = None and u = PyNone
      and res = ?res]
  from t have "verify_code ?res = default_arg PyNone (Some (PyStr ''12345''))"
    by (simp add: sms_example_result)
  moreover from t have
    "rng (snd (sms example_env (PyStr ''15555550100'') (Some (PyStr ''12345'')) None None
               (Some (PyStr ''ATCK'')) None None example_world)) = rng example_world"
    by blast
  ultimately show ?thesis
    by (simp add: sms_example_result consumed_example_world)
qed

text \<open>
  Claim C10, as stated, fails for the operations that send their fields as URL
  parameters. \<^verbatim>\<open>PhoneId.standard\<close>, called with the use case code \<^verbatim>\<open>ATCK\<close> and an
  \<^verbatim>\<open>extra\<close> that maps \<^verbatim>\<open>ucid\<close> to \<^verbatim>\<open>OTHR\<close>, sends \<^verbatim>\<open>ucid=OTHR\<close>, the value of
  \<^verbatim>\<open>extra\<close>, but hands no fields to \<^verbatim>\<open>generate_auth_headers\<close>: the call of the signer
  and the headers that are sent are those of the same call without \<^verbatim>\<open>extra\<close>, which
  sends \<^verbatim>\<open>ucid=ATCK\<close>. The value of \<^verbatim>\<open>extra\<close> is sent; it is not signed.
\<close>

theorem standard_extra_not_signed_counterexample:
  "new_calls example_world
     (snd (standard example_env (PyStr ''13105551212'') (Some (PyStr ''ATCK''))
             (Some [(''ucid'', PyStr ''OTHR'')]) example_world)) =
   [GenerateAuthHeaders ''CUST1'' ''dGVzdGtleQ=='' ''/v1/phoneid/standard/13105551212'' ''GET''
      None,
    RequestsGet ''https://rest.telesign.com/v1/phoneid/standard/13105551212''
      [(''ucid'', PyStr ''OTHR'')]
      [(''Authorization'', ''TSA CUST1:c2ln''), (''x-ts-nonce'', ''n1'')] None] \<and>
   new_calls example_world
     (snd (standard example_env (PyStr ''13105551212'') (Some (PyStr ''ATCK'')) None
             example_world)) =
   [GenerateAuthHeaders ''CUST1'' ''dGVzdGtleQ=='' ''/v1/phoneid/standard/13105551212'' ''GET''
      None,
    RequestsGet ''https://rest.telesign.com/v1/phoneid/standard/13105551212''
      [(''ucid'', PyStr ''ATCK'')]
      [(''Authorization'', ''TSA CUST1:c2ln''), (''x-ts-nonce'', ''n1'')] None]"
  by (simp add: standard_effect new_calls_def example_env_simps client_example_world
        standard_fields_def default_arg_def dict_update_def)

text \<open>
  Claim C10, amended. In every operation, when \<^verbatim>\<open>extra\<close> is a dictionary (its keys
  distinct) that maps \<open>k\<close> to \<open>v\<close>, the fields of the operation, with \<^verbatim>\<open>extra\<close> merged in
  last, map \<open>k\<close> to \<open>v\<close>, whatever the operation had assembled under \<open>k\<close>. The
  operation makes one call of \<^verbatim>\<open>generate_auth_headers\<close> and, when that returns headers,
  one HTTP request that carries these fields. In \<^verbatim>\<open>Verify.sms\<close> and \<^verbatim>\<open>Verify.call\<close>
  the same fields are passed to \<^verbatim>\<open>generate_auth_headers\<close>, so the value of \<^verbatim>\<open>extra\<close>
  is sent and signed. In \<^verbatim>\<open>PhoneId.standard\<close>, \<^verbatim>\<open>score\<close>, \<^verbatim>\<open>contact\<close>, \<^verbatim>\<open>live\<close> and
  \<^verbatim>\<open>Verify.status\<close> no fields are passed to \<^verbatim>\<open>generate_auth_headers\<close>: the value of
  \<^verbatim>\<open>extra\<close> is sent as a URL parameter and is not signed.
\<close>

theorem extra_merged_last:
  "distinct (map fst x) \<Longrightarrow> (k, v) \<in> set x \<Longrightarrow>
   (let fields = standard_fields (default_arg PyNone uc_opt) (Some x);
        resource = ''/v1/phoneid/standard/'' @ py_str pn
    in getitem fields k = Some v \<and>
       new_calls w (snd (standard e pn uc_opt (Some x) w)) =
         GenerateAuthHeaders (customer_id (client w)) (secret_key (client w)) resource ''GET''
           None #
         (case generate_auth_headers e (customer_id (client w)) (secret_key (client w))
                 resource ''GET'' None of
            Inl exn \<Rightarrow> []
          | Inr hs \<Rightarrow> [RequestsGet (url (client w) @ resource) fields hs (proxy (client w))])) \<and>
   (let fields = ucid_fields uc (Some x);
        resource = ''/v1/phoneid/score/'' @ py_str pn
    in getitem fields k = Some v \<and>
       new_calls w (snd (score e pn uc (Some x) w)) =
         GenerateAuthHeaders (customer_id (client w)) (secret_key (client w)) resource ''GET''
           None #
         (case generate_auth_headers e (customer_id (client w)) (secret_key (client w))
                 resource ''GET'' None of
            Inl exn \<Rightarrow> []
          | Inr hs \<Rightarrow> [RequestsGet (url (client w) @ resource) fields hs (proxy (client w))])) \<and>
   (let fields = ucid_fields uc (Some x);
        resource = ''/v1/phoneid/contact/'' @ py_str pn
    in getitem fields k = Some v \<and>
       new_calls w (snd (contact e pn uc (Some x) w)) =
         GenerateAuthHeaders (customer_id (client w)) (secret_key (client w)) resource ''GET''
           None #
         (case generate_auth_headers e (customer_id (client w)) (secret_key (client w))
                 resource ''GET'' None of
            Inl exn \<Rightarrow> []
          | Inr hs \<Rightarrow> [RequestsGet (url (client w) @ resource) fields hs (proxy (client w))])) \<and>
   (let fields = ucid_fields uc (Some x);
        resource = ''/v1/phoneid/live/'' @ py_str pn
    in getitem fields k = Some v \<and>
       new_calls w (snd (live e pn uc (Some x) w)) =
         GenerateAuthHeaders (customer_id (client w)) (secret_key (client w)) resource ''GET''
           None #
         (case generate_auth_headers e (customer_id (client w)) (secret_key (client w))
                 resource ''GET'' None of
            Inl exn \<Rightarrow> []
          | Inr hs \<Rightarrow> [RequestsGet (url (client w) @ resource) fields hs (proxy (client w))])) \<and>
   (let fields = sms_fields pn (default_arg PyNone vc) (default_arg (PyStr ''en'') la)
                   (default_arg (PyStr []) te) (default_arg PyNone uc_opt)
                   (default_arg PyNone ip) (Some x)
    in getitem fields k = Some v \<and>
       new_calls w (snd (sms e pn vc la te uc_opt ip (Some x) w)) =
         GenerateAuthHeaders (customer_id (client w)) (secret_key (client w)) ''/v1/verify/sms''
           ''POST'' (Some fields) #
         (case generate_auth_headers e (customer_id (client w)) (secret_key (client w))
                 ''/v1/verify/sms'' ''POST'' (Some fields) of
            Inl exn \<Rightarrow> []
          | Inr hs \<Rightarrow>
              [RequestsPost (url (client w) @ ''/v1/verify/sms'') fields hs (proxy (client w))])) \<and>
   (let fields = call_fields pn (default_arg PyNone vc) (default_arg PyNone uc_opt)
                   (default_arg (PyStr []) vm) (default_arg (PyStr ''en'') la)
                   (default_arg (PyStr []) et) (default_arg (PyStr []) rd)
                   (default_arg PyNone ip) (default_arg PyNone px) (Some x)
    in getitem fields k = Some v \<and>
       new_calls w (snd (call e pn vc uc_opt vm la et rd ip px (Some x) w)) =
         GenerateAuthHeaders (customer_id (client w)) (secret_key (client w)) ''/v1/verify/call''
           ''POST'' (Some fields) #
         (case generate_auth_headers e (customer_id (client w)) (secret_key (client w))
                 ''/v1/verify/call'' ''POST'' (Some fields) of
            Inl exn \<Rightarrow> []
          | Inr hs \<Rightarrow>
              [RequestsPost (url (client w) @ ''/v1/verify/call'') fields hs (proxy (client w))])) \<and>
   (let fields = status_fields (default_arg PyNone vc) (Some x);
        resource = ''/v1/verify/'' @ py_str pn
    in getitem fields k = Some v \<and>
       new_calls w (snd (status_op e pn vc (Some x) w)) =
         GenerateAuthHeaders (customer_id (client w)) (secret_key (client w)) resource ''GET''
           None #
         (case generate_auth_headers e (customer_id (client w)) (secret_key (client w))
                 resource ''GET'' None of
            Inl exn \<Rightarrow> []
          | Inr hs \<Rightarrow> [RequestsGet (url (client w) @ resource) fields hs (proxy (client w))]))"
  by (simp only: Let_def standard_effect score_effect contact_effect live_effect sms_effect
        call_effect status_op_effect new_calls_def fields_extra)
     simp

theorem extra_merged_last_witness:
  "new_calls example_world
     (snd (standard example_env (PyStr ''13105551212'') (Some (PyStr ''ATCK''))
             (Some [(''phone_number'', PyStr ''999''), (''ucid'', PyStr ''OTHR'')])
             example_world)) =
   [GenerateAuthHeaders ''CUST1'' ''dGVzdGtleQ=='' ''/v1/phoneid/standard/13105551212'' ''GET''
      None,
    RequestsGet ''https://rest.telesign.com/v1/phoneid/standard/13105551212''
      [(''ucid'', PyStr ''OTHR''), (''phone_number'', PyStr ''999'')]
      [(''Authorization'', ''TSA CUST1:c2ln''), (''x-ts-nonce'', ''n1'')] None] \<and>
   getitem [(''ucid'', PyStr ''OTHR''), (''phone_number'', PyStr ''999'')] ''ucid'' =
     Some (PyStr ''OTHR'') \<and>
   new_calls example_world
     (snd (sms example_env (PyStr ''15555550100'') None None None (Some (PyStr ''ATCK'')) None
             (Some [(''phone_number'', PyStr ''999''), (''ucid'', PyStr ''OTHR'')])
             example_world)) =
   [GenerateAuthHeaders ''CUST1'' ''dGVzdGtleQ=='' ''/v1/verify/sms'' ''POST''
      (Some [(''phone_number'', PyStr ''999''), (''language'', PyStr ''en''),
             (''template'', PyStr []), (''ucid'', PyStr ''OTHR'')]),
    RequestsPost ''https://rest.telesign.com/v1/verify/sms''
      [(''phone_number'', PyStr ''999''), (''language'', PyStr ''en''), (''template'', PyStr []),
       (''ucid'', PyStr ''OTHR'')]
      [(''Authorization'', ''TSA CUST1:c2ln''), (''x-ts-nonce'', ''n1'')] None] \<and>
   getitem [(''phone_number'', PyStr ''999''), (''language'', PyStr ''en''),
            (''template'', PyStr []), (''ucid'', PyStr ''OTHR'')] ''ucid'' = Some (PyStr ''OTHR'')"
proof -
  let ?x = "[(''phone_number'', PyStr ''999''), (''ucid'', PyStr ''OTHR'')]"
  have d: "distinct (map fst ?x)" by simp
  have k: "(''ucid'', PyStr ''OTHR'') \<in> set ?x" by simp
  note t = extra_merged_last [OF d k, where e = example_env and w = example_world
      and uc_opt = "Some (PyStr ''ATCK'')" and vc = None and la = None and te = None
      and ip = None and uc = PyNone and vm = None and et = None and rd = None and px = None]
  from t [where pn = "PyStr ''13105551212''", THEN conjunct1]
  have a: "getitem (standard_fields (PyStr ''ATCK'') (Some ?x)) ''ucid'' = Some (PyStr ''OTHR'') \<and>
    new_calls example_world
      (snd (standard example_env (PyStr ''13105551212'') (Some (PyStr ''ATCK'')) (Some ?x)
              example_world)) =
    [GenerateAuthHeaders ''CUST1'' ''dGVzdGtleQ=='' ''/v1/phoneid/standard/13105551212'' ''GET''
       None,
     RequestsGet ''https://rest.telesign.com/v1/phoneid/standard/13105551212''
       (standard_fields (PyStr ''ATCK'') (Some ?x))
       [(''Authorization'', ''TSA CUST1:c2ln''), (''x-ts-nonce'', ''n1'')] None]"
    by (simp add: Let_def default_arg_def example_env_simps client_example_world)
  from t [where pn = "PyStr ''15555550100''", THEN conjunct2, THEN conjunct2, THEN conjunct2,
      THEN conjunct2, THEN conjunct1]
  have b: "getitem (sms_fields (PyStr ''15555550100'') PyNone (PyStr ''en'') (PyStr [])
                      (PyStr ''ATCK'') PyNone (Some ?x)) ''ucid'' = Some (PyStr ''OTHR'') \<and>
    new_calls example_world
      (snd (sms example_env (PyStr ''15555550100'') None None None (Some (PyStr ''ATCK'')) None
              (Some ?x) example_world)) =
    [GenerateAuthHeaders ''CUST1'' ''dGVzdGtleQ=='' ''/v1/verify/sms'' ''POST''
       (Some (sms_fields (PyStr ''15555550100'') PyNone (PyStr ''en'') (PyStr [])
                (PyStr ''ATCK'') PyNone (Some ?x))),
     RequestsPost ''https://rest.telesign.com/v1/verify/sms''
       (sms_fields (PyStr ''15555550100'') PyNone (PyStr ''en'') (PyStr [])
          (PyStr ''ATCK'') PyNone (Some ?x))
       [(''Authorization'', ''TSA CUST1:c2ln''), (''x-ts-nonce'', ''n1'')] None]"
    by (simp add: Let_def default_arg_def example_env_simps client_example_world)
  have sf: "standard_fields (PyStr ''ATCK'') (Some ?x) =
      [(''ucid'', PyStr ''OTHR''), (''phone_number'', PyStr ''999'')]"
    by (simp add: standard_fields_def dict_update_def)
  have mf: "sms_fields (PyStr ''15555550100'') PyNone (PyStr ''en'') (PyStr [])
              (PyStr ''ATCK'') PyNone (Some ?x) =
      [(''phone_number'', PyStr ''999''), (''language'', PyStr ''en''),
       (''template'', PyStr []), (''ucid'', PyStr ''OTHR'')]"
    by (simp add: sms_fields_def dict_update_def)
  from a b show ?thesis by (simp only: sf mf)
qed


section \<open>Properties of the canonical string\<close>

lemma upper_char_line_feed: "upper_char c = CHR 0x0A \<longleftrightarrow> c = CHR 0x0A"
proof (cases "(97::nat) \<le> of_char c \<and> (of_char c :: nat) \<le> 122")
  case False
  then have "upper_char c = c" unfolding upper_char_def by (rule if_not_P)
  then show ?thesis by simp
next
  case True
  then have u: "upper_char c = char_of (of_char c - (32::nat))"
    unfolding upper_char_def by (rule if_P)
  define n :: nat where "n = of_char c"
  from True have n: "97 \<le> n" "n \<le> 122" by (simp_all add: n_def)
  then have c: "c \<noteq> CHR 0x0A" by (auto simp: n_def)
  have "char_of (n - 32) \<noteq> CHR 0x0A"
  proof
    assume "char_of (n - 32) = CHR 0x0A"
    then have "(of_char (char_of (n - 32)) :: nat) = of_char (CHR 0x0A)" by (rule arg_cong)
    then have "(n - 32) mod 256 = 10" by simp
    moreover have "(n - 32) mod 256 = n - 32" using n by simp
    ultimately show False using n by simp
  qed
  with u c show ?thesis by (simp add: n_def)
qed

lemma line_feed_upper: "CHR 0x0A \<in> set (upper s) \<longleftrightarrow> CHR 0x0A \<in> set s"
proof -
  have "set (upper s) = upper_char ` set s" by (simp add: upper_def)
  then show ?thesis using upper_char_line_feed by (metis imageE image_eqI)
qed

lemma split_on_no_sep: "c \<notin> set s \<Longrightarrow> split_on c s = [s]"
  by (induction s) auto

lemma split_on_append: "c \<notin> set a \<Longrightarrow> split_on c (a @ c # b) = a # split_on c b"
  by (induction a) auto

lemma upper_valid_method:
  "method \<in> set [''GET'', ''POST'', ''PUT'', ''DELETE''] \<Longrightarrow> upper method = method"
  by (auto simp: upper_def upper_char_def)

text \<open>
  Claim C3, for the builder of the specification's section 4.2. For a request without
  a body (empty content MD5 and content type) whose method, timestamp and nonce hold no
  line feed and whose resource path is not empty and holds none, the canonical string
  is the method in upper case (the method itself when it is one of GET, POST, PUT,
  DELETE), three line feeds, the timestamp, a line feed, \<^verbatim>\<open>x-ts-nonce:\<close> and the nonce,
  a line feed and the resource path. Split at the line feeds it has exactly six
  segments, the second and the third empty, and it does not end with a line feed.
\<close>

theorem canonical_string_without_body:
  assumes "CHR 0x0A \<notin> set method" and "CHR 0x0A \<notin> set timestamp"
    and "CHR 0x0A \<notin> set nonce" and "CHR 0x0A \<notin> set resource_path"
    and "resource_path \<noteq> []"
  shows "build_canonical_string method resource_path [] [] timestamp nonce =
           upper method @ [CHR 0x0A] @ [] @ [CHR 0x0A] @ [] @ [CHR 0x0A] @ timestamp @ [CHR 0x0A] @
           (''x-ts-nonce:'' @ nonce) @ [CHR 0x0A] @ resource_path \<and>
         split_on (CHR 0x0A) (build_canonical_string method resource_path [] [] timestamp nonce) =
           [upper method, [], [], timestamp, ''x-ts-nonce:'' @ nonce, resource_path] \<and>
         length (split_on (CHR 0x0A)
                   (build_canonical_string method resource_path [] [] timestamp nonce)) = 6 \<and>
         last (build_canonical_string method resource_path [] [] timestamp nonce) \<noteq> CHR 0x0A \<and>
         (method \<in> set [''GET'', ''POST'', ''PUT'', ''DELETE''] \<longrightarrow> upper method = method)"
proof -
  let ?nl = "CHR 0x0A"
  let ?s = "build_canonical_string method resource_path [] [] timestamp nonce"
  have s: "?s = upper method @ ?nl # ?nl # ?nl # timestamp @ ?nl #
                  (''x-ts-nonce:'' @ nonce) @ ?nl # resource_path"
    by (simp add: build_canonical_string_def)
  have m: "?nl \<notin> set (upper method)" using assms(1) by (simp add: line_feed_upper)
  have n: "?nl \<notin> set (''x-ts-nonce:'' @ nonce)" using assms(3) by simp
  have "split_on ?nl ?s = upper method # split_on ?nl (?nl # ?nl # timestamp @ ?nl #
                  (''x-ts-nonce:'' @ nonce) @ ?nl # resource_path)"
    unfolding s using m by (rule split_on_append)
  also have "\<dots> = upper method # [] # [] # split_on ?nl (timestamp @ ?nl #
                  (''x-ts-nonce:'' @ nonce) @ ?nl # resource_path)"
    by simp
  also have "split_on ?nl (timestamp @ ?nl # (''x-ts-nonce:'' @ nonce) @ ?nl # resource_path) =
        timestamp # split_on ?nl ((''x-ts-nonce:'' @ nonce) @ ?nl # resource_path)"
    using assms(2) by (rule split_on_append)
  also have "split_on ?nl ((''x-ts-nonce:'' @ nonce) @ ?nl # resource_path) =
        (''x-ts-nonce:'' @ nonce) # split_on ?nl resource_path"
    using n by (rule split_on_append)
  also have "split_on ?nl resource_path = [resource_path]"
    using assms(4) by (rule split_on_no_sep)
  finally have sp: "split_on ?nl ?s =
      [upper method, [], [], timestamp, ''x-ts-nonce:'' @ nonce, resource_path]" .
  have "last ?s = last resource_path" using assms(5) by (simp add: s)
  moreover have "last resource_path \<in> set resource_path" using assms(5) by simp
  ultimately have l: "last ?s \<noteq> ?nl" using assms(4) by metis
  show ?thesis using s sp l upper_valid_method by simp
qed

theorem canonical_string_without_body_witness:
  "build_canonical_string ''GET'' ''/v1/verify/abc123'' [] [] ''T1'' ''n1'' =
     ''GET'' @ [CHR 0x0A, CHR 0x0A, CHR 0x0A] @ ''T1'' @ [CHR 0x0A] @ ''x-ts-nonce:n1'' @
     [CHR 0x0A] @ ''/v1/verify/abc123'' \<and>
   split_on (CHR 0x0A) (build_canonical_string ''GET'' ''/v1/verify/abc123'' [] [] ''T1'' ''n1'') =
     [''GET'', [], [], ''T1'', ''x-ts-nonce:n1'', ''/v1/verify/abc123'']"
  using canonical_string_without_body [of "''GET''" "''T1''" "''n1''" "''/v1/verify/abc123''"]
  by (simp add: upper_valid_method)


end
